theory Spec2Isabelle
  imports Complex_Main
begin

section \<open>The node task of hardhat-core (builtin-tasks/node.ts)\<close>

text \<open>
  The file registers the task \<open>node\<close> and four overridable subtasks. Everything the
  actions do is an effect on collaborators that live outside the file (the provider, the
  JSON-RPC server, the compiler-output watcher, the console, the error reporter), so the
  embedding is a writer monad with exceptions: an action yields either a thrown value or
  a result, together with the list of effects it performed, in order. What a collaborator
  answers is read from a record \<open>world\<close>; the embedding fixes none of these answers.
\<close>

subsection \<open>Errors\<close>

text \<open>
  The three entries of \<open>ERRORS.BUILTIN_TASKS\<close> that the file names, and a constructor
  for any other descriptor a collaborator may use.
\<close>

datatype errorDescriptor =
    NODE_FORK_BLOCK_NUMBER_WITHOUT_URL
  | JSONRPC_UNSUPPORTED_NETWORK
  | JSONRPC_SERVER_ERROR
  | OTHER_DESCRIPTOR nat

text \<open>
  Modelled from the spec: the class \<open>HardhatError\<close> is imported from
  \<open>internal/core/errors\<close>, which is not part of the sources at hand. A thrown value is
  either a \<open>HardhatError\<close> (descriptor, message arguments, parent error), the
  "recognized domain error" of the specification, or any other \<open>Error\<close>
  object, of which only the message is read. \<open>HardhatError.isHardhatError\<close> tells
  the two apart.
\<close>

datatype exn =
    Error (message: string)
  | HardhatError (errorDescriptor: errorDescriptor)
                 (messageArguments: "(string \<times> string) list")
                 (parent: "exn option")

fun isHardhatError :: "exn \<Rightarrow> bool" where
  "isHardhatError (HardhatError d args p) = True"
| "isHardhatError (Error m) = False"

subsection \<open>Configuration and collaborators' data\<close>

definition HARDHAT_NETWORK_NAME :: string where
  "HARDHAT_NETWORK_NAME = ''hardhat''"

record HardhatNetworkForkingConfig =
  url :: string
  blockNumber :: "int option"

text \<open>
  An account of the local network: its private key (a hex string) and its balance in base
  units. The configuration holds the balance as an unsigned decimal string, which
  \<open>new BN(account.balance)\<close> reads; the model keeps the number it denotes.
\<close>

record HardhatNetworkAccount =
  privateKey :: string
  balance :: nat

record HardhatNetworkConfig =
  forking :: "HardhatNetworkForkingConfig option"
  accounts :: "HardhatNetworkAccount list option"

text \<open>Opaque objects are handles.\<close>

datatype EthereumProvider = Provider nat
datatype JsonRpcServer = Server nat
datatype ProjectPathsConfig = ProjectPaths string
datatype Artifacts = Artifacts nat

type_synonym Buffer = "nat list"

record JsonRpcServerConfig =
  config_hostname :: string
  config_port :: int
  config_provider :: EthereumProvider

datatype rpcParam =
    ForkingParam string "int option"  \<comment> \<open>\<open>{forking: {jsonRpcUrl, blockNumber}}\<close>\<close>
  | BoolParam bool

record RequestArguments =
  request_method :: string
  request_params :: "rpcParam list"

text \<open>The part of the Hardhat runtime environment that the actions read.\<close>

record env =
  network_name :: string
  network_provider :: EthereumProvider
  hardhatArguments_network :: "string option"
  config_networks_hardhat :: HardhatNetworkConfig
  config_paths :: ProjectPathsConfig
  env_artifacts :: Artifacts

subsection \<open>Effects\<close>

datatype taskName =
    TASK_NODE
  | TASK_NODE_CREATE_SERVER
  | TASK_NODE_GET_PROVIDER
  | TASK_NODE_SERVER_CREATED
  | TASK_NODE_SERVER_READY

datatype taskArguments =
    GetProviderArgs "int option" "string option"
      \<comment> \<open>\<open>{forkBlockNumber, forkUrl}\<close>\<close>
  | CreateServerArgs string int EthereumProvider
      \<comment> \<open>\<open>{hostname, port, provider}\<close>\<close>
  | ServerCreatedArgs string int EthereumProvider JsonRpcServer
      \<comment> \<open>\<open>{hostname, port, provider, server}\<close>\<close>
  | ServerReadyArgs string int EthereumProvider JsonRpcServer
      \<comment> \<open>\<open>{address, port, provider, server}\<close>\<close>

text \<open>
  One constructor for each call that leaves the file. \<open>Run\<close> is a call of
  \<open>run(name, args)\<close>; it holds the effects of the subtask that ran, so that the effects
  of an action of this file and those of a subtask it started are never confused.

  Modelled from the spec: \<open>Reporter.reportError\<close> (\<open>internal/sentry/reporter\<close>, not
  among the sources at hand) is fire-and-forget, so reporting an error is an effect that
  does not fail; neither do the console and the debug log.
\<close>

datatype event =
    DebugLog string "exn option"
  | ConsoleLog string
  | ConsoleWarn string
  | CreateProvider string HardhatNetworkConfig ProjectPathsConfig Artifacts
  | ProviderRequest EthereumProvider RequestArguments
  | NewJsonRpcServer JsonRpcServerConfig
  | Listen JsonRpcServer
  | WatchCompilerOutput EthereumProvider ProjectPathsConfig
  | ReportError exn
  | WaitUntilClosed JsonRpcServer
  | Run taskName taskArguments "event list"

type_synonym 'a io = "(exn + 'a) \<times> event list"

definition return :: "'a \<Rightarrow> 'a io" where
  "return x = (Inr x, [])"

definition throw :: "exn \<Rightarrow> 'a io" where
  "throw e = (Inl e, [])"

definition emit :: "event \<Rightarrow> unit io" where
  "emit ev = (Inr (), [ev])"

text \<open>Sequencing (\<open>await m; f\<close>): a thrown value skips the rest.\<close>

definition andThen :: "'a io \<Rightarrow> ('a \<Rightarrow> 'b io) \<Rightarrow> 'b io" where
  "andThen m f =
     (case m of
        (Inl e, t) \<Rightarrow> (Inl e, t)
      | (Inr x, t) \<Rightarrow> (case f x of (r, t') \<Rightarrow> (r, t @ t')))"

text \<open>\<open>try { m } catch (error) { h }\<close>\<close>

definition tryCatch :: "'a io \<Rightarrow> (exn \<Rightarrow> 'a io) \<Rightarrow> 'a io" where
  "tryCatch m h =
     (case m of
        (Inl e, t) \<Rightarrow> (case h e of (r, t') \<Rightarrow> (r, t @ t'))
      | (Inr x, t) \<Rightarrow> (Inr x, t))"

text \<open>A call that a collaborator answers: the effect is recorded, then the answer.\<close>

definition call :: "event \<Rightarrow> exn + 'a \<Rightarrow> 'a io" where
  "call ev answer = (answer, [ev])"

definition call_void :: "event \<Rightarrow> exn option \<Rightarrow> unit io" where
  "call_void ev answer = ((case answer of None \<Rightarrow> Inr () | Some e \<Rightarrow> Inl e), [ev])"

subsection \<open>The world outside the file\<close>

text \<open>
  What each collaborator answers. An awaited call either resolves or rejects. Of the
  library functions, \<open>chalk\<close> and \<open>bufferToHex\<close> always answer, while
  \<open>toBuffer\<close> throws on a string that is not 0x-prefixed hexadecimal and
  \<open>privateToAddress\<close> throws on a buffer that is not a private key (32 bytes, in
  range), so these two answer with an error or a buffer. JavaScript writes a number of
  magnitude \<open>10 ^ 21\<close> or more in exponent notation; that string is the world's
  \<open>exponent_notation\<close>. An answer depends on the arguments of the call only: the
  library functions are pure, and the actions of this file make each other call at most
  once in a launch, so nothing is lost.
\<close>

record world =
  createProvider_answer ::
    "string \<Rightarrow> HardhatNetworkConfig \<Rightarrow> ProjectPathsConfig \<Rightarrow> Artifacts \<Rightarrow> exn + EthereumProvider"
  request_answer :: "EthereumProvider \<Rightarrow> RequestArguments \<Rightarrow> exn option"
  existsSync :: "string \<Rightarrow> bool"
  newJsonRpcServer_answer :: "JsonRpcServerConfig \<Rightarrow> exn + JsonRpcServer"
  listen_answer :: "JsonRpcServer \<Rightarrow> exn + (int \<times> string)"
  watchCompilerOutput_answer :: "EthereumProvider \<Rightarrow> ProjectPathsConfig \<Rightarrow> exn option"
  waitUntilClosed_answer :: "JsonRpcServer \<Rightarrow> exn option"
  chalk_green :: "string \<Rightarrow> string"
  chalk_yellow :: "string \<Rightarrow> string"
  toBuffer :: "string \<Rightarrow> exn + Buffer"
  bufferToHex :: "Buffer \<Rightarrow> string"
  privateToAddress :: "Buffer \<Rightarrow> exn + Buffer"
  exponent_notation :: "int \<Rightarrow> string"

definition createProvider ::
  "world \<Rightarrow> string \<Rightarrow> HardhatNetworkConfig \<Rightarrow> ProjectPathsConfig \<Rightarrow> Artifacts
     \<Rightarrow> EthereumProvider io" where
  "createProvider w name cfg paths arts =
     call (CreateProvider name cfg paths arts) (createProvider_answer w name cfg paths arts)"

definition request :: "world \<Rightarrow> EthereumProvider \<Rightarrow> RequestArguments \<Rightarrow> unit io" where
  "request w p args = call_void (ProviderRequest p args) (request_answer w p args)"

definition newJsonRpcServer :: "world \<Rightarrow> JsonRpcServerConfig \<Rightarrow> JsonRpcServer io" where
  "newJsonRpcServer w cfg = call (NewJsonRpcServer cfg) (newJsonRpcServer_answer w cfg)"

definition listen :: "world \<Rightarrow> JsonRpcServer \<Rightarrow> (int \<times> string) io" where
  "listen w s = call (Listen s) (listen_answer w s)"

definition watchCompilerOutput ::
  "world \<Rightarrow> EthereumProvider \<Rightarrow> ProjectPathsConfig \<Rightarrow> unit io" where
  "watchCompilerOutput w p paths =
     call_void (WatchCompilerOutput p paths) (watchCompilerOutput_answer w p paths)"

definition waitUntilClosed :: "world \<Rightarrow> JsonRpcServer \<Rightarrow> unit io" where
  "waitUntilClosed w s = call_void (WaitUntilClosed s) (waitUntilClosed_answer w s)"

subsection \<open>Numbers in template strings\<close>

definition digit10 :: "nat \<Rightarrow> char" where
  "digit10 d = ''0123456789'' ! d"

fun toString10 :: "nat \<Rightarrow> string" where
  "toString10 n = (if n < 10 then [digit10 n] else toString10 (n div 10) @ [digit10 (n mod 10)])"

declare toString10.simps [simp del]

text \<open>
  \<open>${port}\<close>, for a number that is an integer: all its digits below \<open>10 ^ 21\<close>,
  exponent notation from there on.
\<close>

definition numberToString :: "world \<Rightarrow> int \<Rightarrow> string" where
  "numberToString w i =
     (if \<bar>i\<bar> < 10 ^ 21
      then (if i < 0 then CHR ''-'' # toString10 (nat (- i)) else toString10 (nat i))
      else exponent_notation w i)"

subsection \<open>logHardhatNetworkAccounts (lines 34 to 53)\<close>

text \<open>
  \<open>new BN(account.balance).div(new BN(10).pow(new BN(18))).toString(10)\<close>: the
  quotient of the big-integer division, in decimal.
\<close>

definition displayed_balance :: "HardhatNetworkAccount \<Rightarrow> string" where
  "displayed_balance account = toString10 (balance account div 10 ^ 18)"

text \<open>
  Lines 43 to 51 for one account: the three constants in the order of the source, each
  library call that throws ending the computation, then the template string, which ends
  with a line feed of its own.
\<close>

definition account_block :: "world \<Rightarrow> nat \<Rightarrow> HardhatNetworkAccount \<Rightarrow> exn + string" where
  "account_block w index account =
     (case toBuffer w (privateKey account) of
        Inl e \<Rightarrow> Inl e
      | Inr keyBuffer \<Rightarrow>
     (case privateToAddress w keyBuffer of
        Inl e \<Rightarrow> Inl e
      | Inr addressBuffer \<Rightarrow>
     (let address = bufferToHex w addressBuffer in
     (case toBuffer w (privateKey account) of
        Inl e \<Rightarrow> Inl e
      | Inr keyBuffer' \<Rightarrow>
     (let privateKey = bufferToHex w keyBuffer';
          balance = displayed_balance account
      in Inr (''Account #'' @ toString10 index @ '': '' @ address @ '' ('' @ balance
              @ '' ETH)'' @ [CHR 0x0A] @ ''Private Key: '' @ privateKey @ [CHR 0x0A]))))))"

text \<open>A computation without an effect, which may throw.\<close>

definition compute :: "exn + 'a \<Rightarrow> 'a io" where
  "compute answer = (answer, [])"

text \<open>The loop over \<open>networkConfig.accounts.entries()\<close>.\<close>

fun logAccounts_loop :: "world \<Rightarrow> (nat \<times> HardhatNetworkAccount) list \<Rightarrow> unit io" where
  "logAccounts_loop w [] = return ()"
| "logAccounts_loop w ((index, account) # rest) =
     andThen (compute (account_block w index account)) (\<lambda>text.
     andThen (emit (ConsoleLog text)) (\<lambda>_.
     logAccounts_loop w rest))"

definition logHardhatNetworkAccounts :: "world \<Rightarrow> HardhatNetworkConfig \<Rightarrow> unit io" where
  "logHardhatNetworkAccounts w networkConfig =
     (case accounts networkConfig of
        None \<Rightarrow> return ()
      | Some accs \<Rightarrow>
          andThen (emit (ConsoleLog ''Accounts'')) (\<lambda>_.
          andThen (emit (ConsoleLog ''========'')) (\<lambda>_.
          logAccounts_loop w (enumerate 0 accs))))"

subsection \<open>The subtasks (lines 55 to 198)\<close>

text \<open>\<open>a ?? b\<close>\<close>

definition nullish :: "'a option \<Rightarrow> 'a option \<Rightarrow> 'a option" where
  "nullish a b = (case a of Some x \<Rightarrow> Some x | None \<Rightarrow> b)"

definition hardhat_reset :: "string \<Rightarrow> int option \<Rightarrow> RequestArguments" where
  "hardhat_reset forkUrl forkBlockNumber =
     \<lparr>request_method = ''hardhat_reset'', request_params = [ForkingParam forkUrl forkBlockNumber]\<rparr>"

definition hardhat_setLoggingEnabled :: RequestArguments where
  "hardhat_setLoggingEnabled =
     \<lparr>request_method = ''hardhat_setLoggingEnabled'', request_params = [BoolParam True]\<rparr>"

definition get_provider_action ::
  "world \<Rightarrow> env \<Rightarrow> int option \<Rightarrow> string option \<Rightarrow> EthereumProvider io" where
  "get_provider_action w hre forkBlockNumberParam forkUrlParam =
     andThen
       (if network_name hre \<noteq> HARDHAT_NETWORK_NAME
        then (let networkConfig = config_networks_hardhat hre in
              andThen (emit (DebugLog ''Creating hardhat provider for JSON-RPC server'' None))
                (\<lambda>_. createProvider w HARDHAT_NETWORK_NAME networkConfig
                        (config_paths hre) (env_artifacts hre)))
        else return (network_provider hre))
     (\<lambda>provider.
       let hardhatNetworkConfig = config_networks_hardhat hre;
           forkUrl = nullish forkUrlParam (map_option url (forking hardhatNetworkConfig));
           forkBlockNumber =
             nullish forkBlockNumberParam
               (Option.bind (forking hardhatNetworkConfig) blockNumber)
       in
       andThen
         (case forkUrl of
            Some u \<Rightarrow> request w provider (hardhat_reset u forkBlockNumber)
          | None \<Rightarrow>
              (case forkBlockNumber of
                 Some n \<Rightarrow> throw (HardhatError NODE_FORK_BLOCK_NUMBER_WITHOUT_URL [] None)
               | None \<Rightarrow> return ()))
       (\<lambda>_. andThen (request w provider hardhat_setLoggingEnabled)
       (\<lambda>_. return provider)))"

definition create_server_action ::
  "world \<Rightarrow> string \<Rightarrow> int \<Rightarrow> EthereumProvider \<Rightarrow> JsonRpcServer io" where
  "create_server_action w hostname port provider =
     (let serverConfig = \<lparr>config_hostname = hostname, config_port = port, config_provider = provider\<rparr>
      in newJsonRpcServer w serverConfig)"

definition server_created_action ::
  "string \<Rightarrow> int \<Rightarrow> EthereumProvider \<Rightarrow> JsonRpcServer \<Rightarrow> unit io" where
  "server_created_action hostname port provider server = return ()"

definition server_ready_action ::
  "world \<Rightarrow> env \<Rightarrow> string \<Rightarrow> int \<Rightarrow> EthereumProvider \<Rightarrow> JsonRpcServer \<Rightarrow> unit io" where
  "server_ready_action w hre address port provider server =
     andThen (emit (ConsoleLog (chalk_green w
        (''Started HTTP and WebSocket JSON-RPC server at http://'' @ address @ '':''
           @ numberToString w port @ ''/'')))) (\<lambda>_.
     andThen (emit (ConsoleLog [])) (\<lambda>_.
     (let networkConfig = config_networks_hardhat hre
      in logHardhatNetworkAccounts w networkConfig)))"

subsection \<open>The task registry\<close>

text \<open>
  Each subtask can be overridden, so the task \<open>node\<close> runs whatever is registered under
  the four names. \<open>default_tasks\<close> is what this file registers.
\<close>

record tasks =
  task_get_provider :: "int option \<Rightarrow> string option \<Rightarrow> EthereumProvider io"
  task_create_server :: "string \<Rightarrow> int \<Rightarrow> EthereumProvider \<Rightarrow> JsonRpcServer io"
  task_server_created :: "string \<Rightarrow> int \<Rightarrow> EthereumProvider \<Rightarrow> JsonRpcServer \<Rightarrow> unit io"
  task_server_ready :: "string \<Rightarrow> int \<Rightarrow> EthereumProvider \<Rightarrow> JsonRpcServer \<Rightarrow> unit io"

definition default_tasks :: "world \<Rightarrow> env \<Rightarrow> tasks" where
  "default_tasks w hre =
     \<lparr>task_get_provider = get_provider_action w hre,
      task_create_server = create_server_action w,
      task_server_created = server_created_action,
      task_server_ready = server_ready_action w hre\<rparr>"

text \<open>\<open>run(name, args)\<close>: the effects of the subtask are kept under the call.\<close>

definition run :: "taskName \<Rightarrow> taskArguments \<Rightarrow> 'a io \<Rightarrow> 'a io" where
  "run name args action = (case action of (r, t) \<Rightarrow> (r, [Run name args t]))"

subsection \<open>The task node (lines 200 to 324)\<close>

definition watch_warning :: string where
  "watch_warning = ''There was a problem watching the compiler output, changes in the contracts won't be reflected in the Hardhat Network. Run Hardhat with --verbose to learn more.''"

definition watch_debug :: string where
  "watch_debug = ''Compilation output can't be watched. Please report this to help us improve Hardhat.'' @ [CHR 0x0A]"

text \<open>The hostname the server is bound to (lines 256 to 268).\<close>

definition node_hostname :: "world \<Rightarrow> string option \<Rightarrow> string" where
  "node_hostname w hostnameParam =
     (case hostnameParam of
        Some h \<Rightarrow> h
      | None \<Rightarrow>
          (let insideDocker = existsSync w ''/.dockerenv''
           in if insideDocker then ''0.0.0.0'' else ''localhost''))"

definition node_action ::
  "world \<Rightarrow> env \<Rightarrow> tasks \<Rightarrow> int option \<Rightarrow> string option \<Rightarrow> string option \<Rightarrow> int \<Rightarrow> unit io"
  where
  "node_action w hre ts forkBlockNumber forkUrl hostnameParam port =
     (if network_name hre \<noteq> HARDHAT_NETWORK_NAME \<and> hardhatArguments_network hre \<noteq> None
      then throw (HardhatError JSONRPC_UNSUPPORTED_NETWORK [] None)
      else
        tryCatch
          (andThen (run TASK_NODE_GET_PROVIDER (GetProviderArgs forkBlockNumber forkUrl)
                      (task_get_provider ts forkBlockNumber forkUrl)) (\<lambda>provider.
           let hostname = node_hostname w hostnameParam in
           andThen (run TASK_NODE_CREATE_SERVER (CreateServerArgs hostname port provider)
                      (task_create_server ts hostname port provider)) (\<lambda>server.
           andThen (run TASK_NODE_SERVER_CREATED
                      (ServerCreatedArgs hostname port provider server)
                      (task_server_created ts hostname port provider server)) (\<lambda>_.
           andThen (listen w server) (\<lambda>(actualPort, address).
           andThen
             (tryCatch (watchCompilerOutput w provider (config_paths hre)) (\<lambda>error.
                andThen (emit (ConsoleWarn (chalk_yellow w watch_warning))) (\<lambda>_.
                andThen (emit (DebugLog watch_debug (Some error))) (\<lambda>_.
                emit (ReportError error))))) (\<lambda>_.
           andThen (run TASK_NODE_SERVER_READY
                      (ServerReadyArgs address actualPort provider server)
                      (task_server_ready ts address actualPort provider server)) (\<lambda>_.
           waitUntilClosed w server)))))))
          (\<lambda>error.
             if isHardhatError error then throw error
             else throw (HardhatError JSONRPC_SERVER_ERROR
                           [(''error'', message error)] (Some error))))"

subsection \<open>Reading a list of effects\<close>

text \<open>
  The effects of a run with those of its subtasks spliced in, in the order in which they
  happened, and the two kinds of effect the properties below count: the construction of a
  provider or of a server, and a configuration call on the provider.
\<close>

fun flatten :: "event \<Rightarrow> event list" where
  "flatten (Run name args t) = concat (map flatten t)"
| "flatten ev = [ev]"

definition effects :: "event list \<Rightarrow> event list" where
  "effects t = concat (map flatten t)"

fun is_creation :: "event \<Rightarrow> bool" where
  "is_creation (CreateProvider name cfg paths arts) = True"
| "is_creation (NewJsonRpcServer cfg) = True"
| "is_creation ev = False"

fun is_request :: "event \<Rightarrow> bool" where
  "is_request (ProviderRequest p args) = True"
| "is_request ev = False"

subsection \<open>The specification's vocabulary\<close>

text \<open>
  The error a caller of the task sees when a phase inside the \<open>try\<close> block lets
  \<open>e\<close> escape: a recognized domain error as it is, anything else wrapped in the one
  server-launch error, which carries the original message and has the original as its
  parent.
\<close>

definition launch_failure :: "exn \<Rightarrow> exn" where
  "launch_failure e =
     (if isHardhatError e then e
      else HardhatError JSONRPC_SERVER_ERROR [(''error'', message e)] (Some e))"

text \<open>
  What the watcher phase leaves in the list of effects: the call itself and, when the
  call fails, the warning, the debug line and the report of the error.
\<close>

definition watch_effects :: "world \<Rightarrow> env \<Rightarrow> EthereumProvider \<Rightarrow> event list" where
  "watch_effects w hre p =
     WatchCompilerOutput p (config_paths hre) #
     (case watchCompilerOutput_answer w p (config_paths hre) of
        None \<Rightarrow> []
      | Some error \<Rightarrow>
          [ConsoleWarn (chalk_yellow w watch_warning),
           DebugLog watch_debug (Some error),
           ReportError error])"

text \<open>
  The effective forking parameters in the specification's words: the override if there
  is one, else what the local network's configuration says.
\<close>

definition effective_fork_url :: "env \<Rightarrow> string option \<Rightarrow> string option" where
  "effective_fork_url hre override =
     (case override of
        Some u \<Rightarrow> Some u
      | None \<Rightarrow>
          (case forking (config_networks_hardhat hre) of
             None \<Rightarrow> None
           | Some f \<Rightarrow> Some (url f)))"

definition effective_fork_block_number :: "env \<Rightarrow> int option \<Rightarrow> int option" where
  "effective_fork_block_number hre override =
     (case override of
        Some n \<Rightarrow> Some n
      | None \<Rightarrow>
          (case forking (config_networks_hardhat hre) of
             None \<Rightarrow> None
           | Some f \<Rightarrow> blockNumber f))"

text \<open>
  Step 1 of provider resolution in the specification's words: the provider the node
  serves, which is a new one built for the Hardhat network when the network in use is
  another one and the provider of the network in use otherwise, and the effects of
  choosing it.
\<close>

definition chosen_provider :: "world \<Rightarrow> env \<Rightarrow> exn + EthereumProvider" where
  "chosen_provider w hre =
     (if network_name hre \<noteq> HARDHAT_NETWORK_NAME
      then createProvider_answer w HARDHAT_NETWORK_NAME (config_networks_hardhat hre)
             (config_paths hre) (env_artifacts hre)
      else Inr (network_provider hre))"

definition choice_effects :: "env \<Rightarrow> event list" where
  "choice_effects hre =
     (if network_name hre \<noteq> HARDHAT_NETWORK_NAME
      then [DebugLog ''Creating hardhat provider for JSON-RPC server'' None,
            CreateProvider HARDHAT_NETWORK_NAME (config_networks_hardhat hre)
              (config_paths hre) (env_artifacts hre)]
      else [])"

text \<open>
  The error, if any, with which the library refuses the private key of an account at
  lines 43 and 44.
\<close>

definition key_error :: "world \<Rightarrow> HardhatNetworkAccount \<Rightarrow> exn option" where
  "key_error w account =
     (case toBuffer w (privateKey account) of
        Inl e \<Rightarrow> Some e
      | Inr keyBuffer \<Rightarrow>
          (case privateToAddress w keyBuffer of
             Inl e \<Rightarrow> Some e
           | Inr addressBuffer \<Rightarrow> None))"

text \<open>The library accepts the private key of every account of the Hardhat network.\<close>

definition keys_accepted :: "world \<Rightarrow> env \<Rightarrow> bool" where
  "keys_accepted w hre =
     (case accounts (config_networks_hardhat hre) of
        None \<Rightarrow> True
      | Some accs \<Rightarrow> (\<forall>a \<in> set accs. key_error w a = None))"

text \<open>The number a string of decimal digits denotes.\<close>

definition digit_value :: "char \<Rightarrow> nat" where
  "digit_value c = of_char c - 48"

definition decimal_value :: "string \<Rightarrow> nat" where
  "decimal_value s = foldl (\<lambda>acc c. 10 * acc + digit_value c) 0 s"

subsection \<open>A concrete world and environment\<close>

text \<open>
  Every collaborator answers without an error, the server binds port 49152 on the
  loopback interface, and the local network has two accounts and no forking
  configuration. The examples below vary it.

  The key functions of the example behave as those of \<open>ethereumjs-util\<close> do on the
  keys that occur: \<open>toBuffer\<close> reads 0x-prefixed hexadecimal (padded to an even number
  of digits) and refuses any other string, \<open>bufferToHex\<close> writes lower-case
  hexadecimal, and \<open>privateToAddress\<close> refuses a buffer that is not 32 bytes long and
  knows the addresses of the first two accounts of a fresh Hardhat project, which are the
  accounts of the example; no other key of 32 bytes occurs.
\<close>

definition hex_value :: "char \<Rightarrow> nat option" where
  "hex_value c =
     (let n = (of_char c :: nat) in
      if 48 \<le> n \<and> n \<le> 57 then Some (n - 48)
      else if 97 \<le> n \<and> n \<le> 102 then Some (n - 87)
      else if 65 \<le> n \<and> n \<le> 70 then Some (n - 55)
      else None)"

fun hex_decode :: "string \<Rightarrow> Buffer option" where
  "hex_decode [] = Some []"
| "hex_decode [c] = None"
| "hex_decode (a # b # rest) =
     (case (hex_value a, hex_value b, hex_decode rest) of
        (Some x, Some y, Some bytes) \<Rightarrow> Some ((16 * x + y) # bytes)
      | _ \<Rightarrow> None)"

definition example_toBuffer :: "string \<Rightarrow> exn + Buffer" where
  "example_toBuffer v =
     (case v of
        CHR ''0'' # CHR ''x'' # digits \<Rightarrow>
          (case hex_decode (if even (length digits) then digits else CHR ''0'' # digits) of
             Some bytes \<Rightarrow> Inr bytes
           | None \<Rightarrow> Inl (Error ''Cannot convert string to buffer''))
      | _ \<Rightarrow> Inl (Error ''Cannot convert string to buffer''))"

definition example_bufferToHex :: "Buffer \<Rightarrow> string" where
  "example_bufferToHex bytes =
     ''0x'' @ concat (map (\<lambda>n. [''0123456789abcdef'' ! (n div 16),
                                  ''0123456789abcdef'' ! (n mod 16)]) bytes)"

definition account0_key :: string where
  "account0_key = ''0xac0974bec39a17e36ba4a6b4d238ff944bacb478cbed5efcae784d7bf4f2ff80''"

definition account0_address :: string where
  "account0_address = ''0xf39fd6e51aad88f6f4ce6ab8827279cfffb92266''"

definition account1_key :: string where
  "account1_key = ''0x59c6995e998f97a5a0044966f0945389dc9e86dae88c7a8412f4603b6b78690d''"

definition account1_address :: string where
  "account1_address = ''0x70997970c51812dc3a010c7d01b50e0d17dc79c8''"

definition example_privateToAddress :: "Buffer \<Rightarrow> exn + Buffer" where
  "example_privateToAddress keyBuffer =
     (if length keyBuffer \<noteq> 32 then Inl (Error ''Expected private key of length 32'')
      else if Inr keyBuffer = example_toBuffer account0_key
        then example_toBuffer account0_address
      else if Inr keyBuffer = example_toBuffer account1_key
        then example_toBuffer account1_address
      else Inl (Error ''not an account of the example''))"

definition example_world :: world where
  "example_world =
     \<lparr>createProvider_answer = (\<lambda>name cfg paths arts. Inr (Provider 1)),
      request_answer = (\<lambda>p args. None),
      existsSync = (\<lambda>path. False),
      newJsonRpcServer_answer = (\<lambda>cfg. Inr (Server 0)),
      listen_answer = (\<lambda>s. Inr (49152, ''127.0.0.1'')),
      watchCompilerOutput_answer = (\<lambda>p paths. None),
      waitUntilClosed_answer = (\<lambda>s. None),
      chalk_green = (\<lambda>s. s),
      chalk_yellow = (\<lambda>s. s),
      toBuffer = example_toBuffer,
      bufferToHex = example_bufferToHex,
      privateToAddress = example_privateToAddress,
      exponent_notation = (\<lambda>i. ''1e+21'')\<rparr>"

definition example_env :: env where
  "example_env =
     \<lparr>network_name = ''hardhat'',
      network_provider = Provider 0,
      hardhatArguments_network = None,
      config_networks_hardhat =
        \<lparr>forking = None,
         accounts = Some [\<lparr>privateKey = account0_key, balance = 10000 * 10 ^ 18\<rparr>,
                          \<lparr>privateKey = account1_key, balance = 5 * 10 ^ 17\<rparr>]\<rparr>,
      config_paths = ProjectPaths ''/project'',
      env_artifacts = Artifacts 0\<rparr>"

text \<open>
  Three variations: the marker file of a container is there; the watcher fails; the port
  is taken, so that \<open>listen\<close> fails.
\<close>

definition docker_world :: world where
  "docker_world = example_world\<lparr>existsSync := (\<lambda>path. path = ''/.dockerenv'')\<rparr>"

definition watch_failing_world :: world where
  "watch_failing_world =
     example_world\<lparr>watchCompilerOutput_answer := (\<lambda>p paths. Some (Error ''boom''))\<rparr>"

definition port_in_use_world :: world where
  "port_in_use_world = example_world\<lparr>listen_answer := (\<lambda>s. Inl (Error ''EADDRINUSE''))\<rparr>"

text \<open>
  An environment whose only account has a private key of one byte, which
  \<open>privateToAddress\<close> refuses.
\<close>

definition short_key_env :: env where
  "short_key_env =
     example_env\<lparr>config_networks_hardhat :=
       \<lparr>forking = None,
        accounts = Some [\<lparr>privateKey = ''0xab'', balance = 10000 * 10 ^ 18\<rparr>]\<rparr>\<rparr>"

text \<open>An environment whose Hardhat network has a forking section and no accounts.\<close>

definition forked_env :: env where
  "forked_env =
     example_env\<lparr>config_networks_hardhat :=
       \<lparr>forking = Some \<lparr>url = ''https://configured.example'', blockNumber = Some 7\<rparr>,
        accounts = None\<rparr>\<rparr>"

section \<open>Properties\<close>

subsection \<open>Sequencing\<close>

lemma andThen_simps [simp]:
  "andThen (Inl e, t) f = (Inl e, t)"
  "andThen (Inr x, t) f = (fst (f x), t @ snd (f x))"
  by (simp_all add: andThen_def split: prod.splits)

lemma tryCatch_simps [simp]:
  "tryCatch (Inl e, t) h = (fst (h e), t @ snd (h e))"
  "tryCatch (Inr x, t) h = (Inr x, t)"
  by (simp_all add: tryCatch_def split: prod.splits)

lemma run_simp [simp]: "run name args (r, t) = (r, [Run name args t])"
  by (simp add: run_def)

lemma call_void_simps [simp]:
  "call_void ev None = (Inr (), [ev])"
  "call_void ev (Some e) = (Inl e, [ev])"
  by (simp_all add: call_void_def)

lemmas prim_defs = return_def throw_def emit_def call_def

text \<open>Effects are only ever added at the end.\<close>

lemma snd_andThen: "\<exists>rest. snd (andThen m f) = snd m @ rest"
  by (cases m; cases "fst m") auto

lemma snd_tryCatch: "\<exists>rest. snd (tryCatch m h) = snd m @ rest"
  by (cases m; cases "fst m") auto

lemma snd_run: "snd (run name args m) = [Run name args (snd m)]"
  by (cases m) simp

subsection \<open>The phases of the task, one by one\<close>

text \<open>
  Each lemma fixes what the earlier phases answered and gives the outcome and the
  complete list of effects of the task when the next phase fails, or, for the last one,
  when the ready hook has been reached.
\<close>

lemmas node_defs = node_action_def listen_def watchCompilerOutput_def waitUntilClosed_def
  prim_defs launch_failure_def Let_def

lemma fails_get_provider:
  assumes "network_name hre = HARDHAT_NETWORK_NAME \<or> hardhatArguments_network hre = None"
      and "task_get_provider ts fbn furl = (Inl e, t0)"
  shows "node_action w hre ts fbn furl hostnameParam port =
           (Inl (launch_failure e), [Run TASK_NODE_GET_PROVIDER (GetProviderArgs fbn furl) t0])"
  using assms by (auto simp: node_defs)

lemma fails_create_server:
  assumes "network_name hre = HARDHAT_NETWORK_NAME \<or> hardhatArguments_network hre = None"
      and "task_get_provider ts fbn furl = (Inr p, t0)"
      and "task_create_server ts (node_hostname w hostnameParam) port p = (Inl e, t1)"
  shows "node_action w hre ts fbn furl hostnameParam port =
           (Inl (launch_failure e),
            [Run TASK_NODE_GET_PROVIDER (GetProviderArgs fbn furl) t0,
             Run TASK_NODE_CREATE_SERVER
               (CreateServerArgs (node_hostname w hostnameParam) port p) t1])"
  using assms by (auto simp: node_defs)

lemma fails_server_created:
  assumes "network_name hre = HARDHAT_NETWORK_NAME \<or> hardhatArguments_network hre = None"
      and "task_get_provider ts fbn furl = (Inr p, t0)"
      and "task_create_server ts (node_hostname w hostnameParam) port p = (Inr s, t1)"
      and "task_server_created ts (node_hostname w hostnameParam) port p s = (Inl e, t2)"
  shows "node_action w hre ts fbn furl hostnameParam port =
           (Inl (launch_failure e),
            [Run TASK_NODE_GET_PROVIDER (GetProviderArgs fbn furl) t0,
             Run TASK_NODE_CREATE_SERVER
               (CreateServerArgs (node_hostname w hostnameParam) port p) t1,
             Run TASK_NODE_SERVER_CREATED
               (ServerCreatedArgs (node_hostname w hostnameParam) port p s) t2])"
  using assms by (auto simp: node_defs)

lemma fails_listen:
  assumes "network_name hre = HARDHAT_NETWORK_NAME \<or> hardhatArguments_network hre = None"
      and "task_get_provider ts fbn furl = (Inr p, t0)"
      and "task_create_server ts (node_hostname w hostnameParam) port p = (Inr s, t1)"
      and "task_server_created ts (node_hostname w hostnameParam) port p s = (Inr (), t2)"
      and "listen_answer w s = Inl e"
  shows "node_action w hre ts fbn furl hostnameParam port =
           (Inl (launch_failure e),
            [Run TASK_NODE_GET_PROVIDER (GetProviderArgs fbn furl) t0,
             Run TASK_NODE_CREATE_SERVER
               (CreateServerArgs (node_hostname w hostnameParam) port p) t1,
             Run TASK_NODE_SERVER_CREATED
               (ServerCreatedArgs (node_hostname w hostnameParam) port p s) t2,
             Listen s])"
  using assms by (auto simp: node_defs)

lemma reaches_server_ready:
  assumes "network_name hre = HARDHAT_NETWORK_NAME \<or> hardhatArguments_network hre = None"
      and "task_get_provider ts fbn furl = (Inr p, t0)"
      and "task_create_server ts (node_hostname w hostnameParam) port p = (Inr s, t1)"
      and "task_server_created ts (node_hostname w hostnameParam) port p s = (Inr (), t2)"
      and "listen_answer w s = Inr (actualPort, address)"
      and "task_server_ready ts address actualPort p s = (r3, t3)"
  shows "node_action w hre ts fbn furl hostnameParam port =
           ((case r3 of
               Inl e \<Rightarrow> Inl (launch_failure e)
             | Inr u \<Rightarrow>
                 (case waitUntilClosed_answer w s of
                    None \<Rightarrow> Inr ()
                  | Some e \<Rightarrow> Inl (launch_failure e))),
            [Run TASK_NODE_GET_PROVIDER (GetProviderArgs fbn furl) t0,
             Run TASK_NODE_CREATE_SERVER
               (CreateServerArgs (node_hostname w hostnameParam) port p) t1,
             Run TASK_NODE_SERVER_CREATED
               (ServerCreatedArgs (node_hostname w hostnameParam) port p s) t2,
             Listen s]
            @ watch_effects w hre p
            @ [Run TASK_NODE_SERVER_READY (ServerReadyArgs address actualPort p s) t3]
            @ (case r3 of Inl e \<Rightarrow> [] | Inr u \<Rightarrow> [WaitUntilClosed s]))"
  using assms by (auto simp: node_defs watch_effects_def split: option.splits sum.splits)

text \<open>A launch that returns normally went through every phase without an error.\<close>

lemma node_succeeds:
  assumes ok: "node_action w hre ts fbn furl hostnameParam port = (Inr (), tr)"
  shows "\<exists>p s actualPort address t0 t1 t2 t3.
           task_get_provider ts fbn furl = (Inr p, t0)
         \<and> task_create_server ts (node_hostname w hostnameParam) port p = (Inr s, t1)
         \<and> task_server_created ts (node_hostname w hostnameParam) port p s = (Inr (), t2)
         \<and> listen_answer w s = Inr (actualPort, address)
         \<and> task_server_ready ts address actualPort p s = (Inr (), t3)
         \<and> waitUntilClosed_answer w s = None
         \<and> tr = [Run TASK_NODE_GET_PROVIDER (GetProviderArgs fbn furl) t0,
                  Run TASK_NODE_CREATE_SERVER
                    (CreateServerArgs (node_hostname w hostnameParam) port p) t1,
                  Run TASK_NODE_SERVER_CREATED
                    (ServerCreatedArgs (node_hostname w hostnameParam) port p s) t2,
                  Listen s]
                 @ watch_effects w hre p
                 @ [Run TASK_NODE_SERVER_READY (ServerReadyArgs address actualPort p s) t3,
                    WaitUntilClosed s]"
proof -
  have valid: "network_name hre = HARDHAT_NETWORK_NAME \<or> hardhatArguments_network hre = None"
    using ok by (auto simp: node_action_def throw_def split: if_splits)
  obtain r0 t0 where gp: "task_get_provider ts fbn furl = (r0, t0)"
    by (cases "task_get_provider ts fbn furl")
  obtain p where r0: "r0 = Inr p"
    using fails_get_provider [OF valid, of ts fbn furl _ t0 w hostnameParam port] ok gp
    by (cases r0) auto
  let ?h = "node_hostname w hostnameParam"
  obtain r1 t1 where cs: "task_create_server ts ?h port p = (r1, t1)"
    by (cases "task_create_server ts ?h port p")
  obtain s where r1: "r1 = Inr s"
    using fails_create_server [OF valid, of ts fbn furl p t0 w hostnameParam port _ t1]
      ok gp r0 cs
    by (cases r1) auto
  obtain r2 t2 where sc: "task_server_created ts ?h port p s = (r2, t2)"
    by (cases "task_server_created ts ?h port p s")
  have r2: "r2 = Inr ()"
    using fails_server_created [OF valid, of ts fbn furl p t0 w hostnameParam port s t1 _ t2]
      ok gp r0 cs r1 sc
    by (cases r2) auto
  obtain actualPort address where li: "listen_answer w s = Inr (actualPort, address)"
    using fails_listen [OF valid, of ts fbn furl p t0 w hostnameParam port s t1 t2]
      ok gp r0 cs r1 sc r2
    by (cases "listen_answer w s") auto
  obtain r3 t3 where sr: "task_server_ready ts address actualPort p s = (r3, t3)"
    by (cases "task_server_ready ts address actualPort p s")
  note reached = reaches_server_ready [OF valid gp [unfolded r0] cs [unfolded r1]
      sc [unfolded r2] li sr]
  have r3: "r3 = Inr ()"
    using reached ok by (cases r3) auto
  have wc: "waitUntilClosed_answer w s = None"
    using reached ok r3 by (cases "waitUntilClosed_answer w s") auto
  have "tr = [Run TASK_NODE_GET_PROVIDER (GetProviderArgs fbn furl) t0,
                  Run TASK_NODE_CREATE_SERVER (CreateServerArgs ?h port p) t1,
                  Run TASK_NODE_SERVER_CREATED (ServerCreatedArgs ?h port p s) t2,
                  Listen s]
                 @ watch_effects w hre p
                 @ [Run TASK_NODE_SERVER_READY (ServerReadyArgs address actualPort p s) t3,
                    WaitUntilClosed s]"
    using reached ok r3 by simp
  with gp r0 cs r1 sc r2 li sr r3 wc show ?thesis
    by blast
qed

text \<open>So did a launch that got as far as \<open>waitUntilClosed\<close>.\<close>

lemma node_serving:
  assumes serving:
    "WaitUntilClosed s' \<in> set (snd (node_action w hre ts fbn furl hostnameParam port))"
  shows "\<exists>p s actualPort address t0 t1 t2 t3.
           task_get_provider ts fbn furl = (Inr p, t0)
         \<and> task_create_server ts (node_hostname w hostnameParam) port p = (Inr s, t1)
         \<and> task_server_created ts (node_hostname w hostnameParam) port p s = (Inr (), t2)
         \<and> listen_answer w s = Inr (actualPort, address)
         \<and> task_server_ready ts address actualPort p s = (Inr (), t3)
         \<and> snd (node_action w hre ts fbn furl hostnameParam port)
             = [Run TASK_NODE_GET_PROVIDER (GetProviderArgs fbn furl) t0,
                Run TASK_NODE_CREATE_SERVER
                  (CreateServerArgs (node_hostname w hostnameParam) port p) t1,
                Run TASK_NODE_SERVER_CREATED
                  (ServerCreatedArgs (node_hostname w hostnameParam) port p s) t2,
                Listen s]
               @ watch_effects w hre p
               @ [Run TASK_NODE_SERVER_READY (ServerReadyArgs address actualPort p s) t3,
                  WaitUntilClosed s]"
proof -
  have valid: "network_name hre = HARDHAT_NETWORK_NAME \<or> hardhatArguments_network hre = None"
    using serving by (auto simp: node_action_def throw_def split: if_splits)
  obtain r0 t0 where gp: "task_get_provider ts fbn furl = (r0, t0)"
    by (cases "task_get_provider ts fbn furl")
  obtain p where r0: "r0 = Inr p"
    using fails_get_provider [OF valid, of ts fbn furl _ t0 w hostnameParam port] serving gp
    by (cases r0) auto
  let ?h = "node_hostname w hostnameParam"
  obtain r1 t1 where cs: "task_create_server ts ?h port p = (r1, t1)"
    by (cases "task_create_server ts ?h port p")
  obtain s where r1: "r1 = Inr s"
    using fails_create_server [OF valid, of ts fbn furl p t0 w hostnameParam port _ t1]
      serving gp r0 cs
    by (cases r1) auto
  obtain r2 t2 where sc: "task_server_created ts ?h port p s = (r2, t2)"
    by (cases "task_server_created ts ?h port p s")
  have r2: "r2 = Inr ()"
    using fails_server_created [OF valid, of ts fbn furl p t0 w hostnameParam port s t1 _ t2]
      serving gp r0 cs r1 sc
    by (cases r2) auto
  obtain actualPort address where li: "listen_answer w s = Inr (actualPort, address)"
    using fails_listen [OF valid, of ts fbn furl p t0 w hostnameParam port s t1 t2]
      serving gp r0 cs r1 sc r2
    by (cases "listen_answer w s") auto
  obtain r3 t3 where sr: "task_server_ready ts address actualPort p s = (r3, t3)"
    by (cases "task_server_ready ts address actualPort p s")
  note reached = reaches_server_ready [OF valid gp [unfolded r0] cs [unfolded r1]
      sc [unfolded r2] li sr]
  have r3: "r3 = Inr ()"
    using reached serving
    by (cases r3) (auto simp: watch_effects_def split: option.splits)
  have "snd (node_action w hre ts fbn furl hostnameParam port)
             = [Run TASK_NODE_GET_PROVIDER (GetProviderArgs fbn furl) t0,
                Run TASK_NODE_CREATE_SERVER (CreateServerArgs ?h port p) t1,
                Run TASK_NODE_SERVER_CREATED (ServerCreatedArgs ?h port p s) t2,
                Listen s]
               @ watch_effects w hre p
               @ [Run TASK_NODE_SERVER_READY (ServerReadyArgs address actualPort p s) t3,
                  WaitUntilClosed s]"
    using reached r3 by simp
  with gp r0 cs r1 sc r2 li sr r3 show ?thesis
    by blast
qed

text \<open>Once the provider is there, the next effect is the call of the server subtask.\<close>

lemma node_creates_server:
  assumes "network_name hre = HARDHAT_NETWORK_NAME \<or> hardhatArguments_network hre = None"
      and "task_get_provider ts fbn furl = (Inr p, t0)"
  shows "\<exists>rest. snd (node_action w hre ts fbn furl hostnameParam port)
           = Run TASK_NODE_GET_PROVIDER (GetProviderArgs fbn furl) t0
             # Run TASK_NODE_CREATE_SERVER
                 (CreateServerArgs (node_hostname w hostnameParam) port p)
                 (snd (task_create_server ts (node_hostname w hostnameParam) port p))
             # rest"
proof -
  let ?h = "node_hostname w hostnameParam"
  let ?first = "(Inr p, [Run TASK_NODE_GET_PROVIDER (GetProviderArgs fbn furl) t0])"
  let ?second = "\<lambda>provider. run TASK_NODE_CREATE_SERVER (CreateServerArgs ?h port provider)
                   (task_create_server ts ?h port provider)"
  obtain body handler where
    eq: "node_action w hre ts fbn furl hostnameParam port
           = tryCatch
               (andThen ?first (\<lambda>provider. andThen (?second provider) (body provider)))
               handler"
    using assms unfolding node_action_def Let_def by auto
  obtain r1 where r1: "snd (node_action w hre ts fbn furl hostnameParam port)
      = (Run TASK_NODE_GET_PROVIDER (GetProviderArgs fbn furl) t0
           # snd (andThen (?second p) (body p))) @ r1"
    using snd_tryCatch
      [of "andThen ?first (\<lambda>provider. andThen (?second provider) (body provider))" handler]
    by (auto simp: eq)
  obtain r2 where "snd (andThen (?second p) (body p)) = snd (?second p) @ r2"
    using snd_andThen by blast
  with r1 show ?thesis
    by (simp add: snd_run)
qed

subsection \<open>The watcher cannot change the outcome\<close>

lemma node_hostname_update [simp]:
  "node_hostname (w\<lparr>watchCompilerOutput_answer := a\<rparr>) hostnameParam = node_hostname w hostnameParam"
  by (simp add: node_hostname_def split: option.splits)

lemma watcher_irrelevant:
  "fst (node_action (w\<lparr>watchCompilerOutput_answer := a\<rparr>) hre ts fbn furl hostnameParam port)
     = fst (node_action w hre ts fbn furl hostnameParam port)"
proof (cases "network_name hre = HARDHAT_NETWORK_NAME \<or> hardhatArguments_network hre = None")
  case False
  then show ?thesis by (simp add: node_action_def)
next
  case valid: True
  let ?w = "w\<lparr>watchCompilerOutput_answer := a\<rparr>"
  let ?h = "node_hostname w hostnameParam"
  obtain r0 t0 where gp: "task_get_provider ts fbn furl = (r0, t0)"
    by (cases "task_get_provider ts fbn furl")
  show ?thesis
  proof (cases r0)
    case (Inl e)
    with gp valid show ?thesis by (simp add: fails_get_provider)
  next
    case (Inr p)
    note gp = gp [unfolded Inr]
    obtain r1 t1 where cs: "task_create_server ts ?h port p = (r1, t1)"
      by (cases "task_create_server ts ?h port p")
    show ?thesis
    proof (cases r1)
      case (Inl e)
      with gp cs valid show ?thesis
        using fails_create_server [OF valid gp, of w hostnameParam port e t1]
          fails_create_server [OF valid gp, of ?w hostnameParam port e t1]
        by simp
    next
      case (Inr s)
      note cs = cs [unfolded Inr]
      obtain r2 t2 where sc: "task_server_created ts ?h port p s = (r2, t2)"
        by (cases "task_server_created ts ?h port p s")
      show ?thesis
      proof (cases r2)
        case (Inl e)
        then show ?thesis
          using fails_server_created [OF valid gp, of w hostnameParam port s t1 e t2]
            fails_server_created [OF valid gp, of ?w hostnameParam port s t1 e t2] cs sc
          by simp
      next
        case (Inr u)
        then have sc: "task_server_created ts ?h port p s = (Inr (), t2)"
          using sc by simp
        show ?thesis
        proof (cases "listen_answer w s")
          case (Inl e)
          then show ?thesis
            using fails_listen [OF valid gp, of w hostnameParam port s t1 t2 e]
              fails_listen [OF valid gp, of ?w hostnameParam port s t1 t2 e] cs sc
            by simp
        next
          case (Inr bound)
          obtain actualPort address where bound: "bound = (actualPort, address)"
            by (cases bound)
          obtain r3 t3 where sr: "task_server_ready ts address actualPort p s = (r3, t3)"
            by (cases "task_server_ready ts address actualPort p s")
          show ?thesis
            using reaches_server_ready [OF valid gp, of w hostnameParam port s t1 t2
                actualPort address r3 t3]
              reaches_server_ready [OF valid gp, of ?w hostnameParam port s t1 t2
                actualPort address r3 t3] cs sc Inr bound sr
            by (simp split: sum.splits)
        qed
      qed
    qed
  qed
qed

subsection \<open>Decimal numerals of the examples\<close>

lemma toString10_zero: "toString10 0 = ''0''"
  by (subst toString10.simps) (simp add: digit10_def)

lemma toString10_one: "toString10 (Suc 0) = ''1''"
  by (subst toString10.simps) (simp add: digit10_def)

lemma toString10_8545: "toString10 8545 = ''8545''"
  by (simp add: toString10.simps digit10_def)

lemma toString10_10000: "toString10 10000 = ''10000''"
  by (simp add: toString10.simps digit10_def)

subsection \<open>What the registered subtasks do\<close>

lemma key_error_None:
  "(key_error w account = None)
     = (\<exists>keyBuffer addressBuffer.
          toBuffer w (privateKey account) = Inr keyBuffer
        \<and> privateToAddress w keyBuffer = Inr addressBuffer)"
  by (auto simp: key_error_def split: sum.splits)

lemma account_block_accepted:
  assumes "toBuffer w (privateKey account) = Inr keyBuffer"
      and "privateToAddress w keyBuffer = Inr addressBuffer"
  shows "account_block w index account =
           Inr (''Account #'' @ toString10 index @ '': '' @ bufferToHex w addressBuffer
                @ '' ('' @ displayed_balance account @ '' ETH)'' @ [CHR 0x0A]
                @ ''Private Key: '' @ bufferToHex w keyBuffer @ [CHR 0x0A])"
  using assms by (simp add: account_block_def Let_def)

lemma account_block_refused:
  "key_error w account = Some e \<Longrightarrow> account_block w index account = Inl e"
  by (auto simp: key_error_def account_block_def split: sum.splits)

lemma account_block_Inr:
  "key_error w account = None \<Longrightarrow> \<exists>text. account_block w index account = Inr text"
  by (auto simp: key_error_None account_block_accepted)

lemma logAccounts_loop_accepted:
  "\<forall>x \<in> set xs. key_error w (snd x) = None \<Longrightarrow>
     logAccounts_loop w xs
       = (Inr (), map (\<lambda>(index, account).
                         ConsoleLog (projr (account_block w index account))) xs)"
proof (induction xs)
  case Nil
  show ?case by (simp add: return_def)
next
  case (Cons x xs)
  obtain index account where x: "x = (index, account)" by (cases x)
  from Cons.prems x have "key_error w account = None" by simp
  from account_block_Inr [OF this, of index]
  obtain printed where "account_block w index account = Inr printed" by blast
  with Cons x show ?case
    by (simp add: compute_def emit_def)
qed

lemma logAccounts_loop_refused:
  "k < length xs \<Longrightarrow> \<forall>j < k. key_error w (snd (xs ! j)) = None \<Longrightarrow>
   key_error w (snd (xs ! k)) = Some e \<Longrightarrow>
     logAccounts_loop w xs
       = (Inl e, map (\<lambda>(index, account).
                        ConsoleLog (projr (account_block w index account))) (take k xs))"
proof (induction xs arbitrary: k)
  case Nil
  then show ?case by simp
next
  case (Cons x xs)
  obtain index account where x: "x = (index, account)" by (cases x)
  show ?case
  proof (cases k)
    case 0
    with Cons.prems x have "key_error w account = Some e" by simp
    from account_block_refused [OF this, of index] 0 x show ?thesis
      by (simp add: compute_def)
  next
    case (Suc k')
    from Cons.prems Suc x have "key_error w account = None" by auto
    from account_block_Inr [OF this, of index]
    obtain printed where head: "account_block w index account = Inr printed" by blast
    have "k' < length xs" using Cons.prems Suc by simp
    moreover have "\<forall>j < k'. key_error w (snd (xs ! j)) = None"
      using Cons.prems(2) Suc by auto
    moreover have "key_error w (snd (xs ! k')) = Some e"
      using Cons.prems(3) Suc by simp
    ultimately have "logAccounts_loop w xs
       = (Inl e, map (\<lambda>(index, account).
                        ConsoleLog (projr (account_block w index account))) (take k' xs))"
      by (rule Cons.IH)
    with head Suc x show ?thesis
      by (simp add: compute_def emit_def)
  qed
qed

lemma server_ready_action_none:
  "accounts (config_networks_hardhat hre) = None \<Longrightarrow>
   server_ready_action w hre address port p s =
     (Inr (),
      [ConsoleLog (chalk_green w
         (''Started HTTP and WebSocket JSON-RPC server at http://'' @ address @ '':''
            @ numberToString w port @ ''/'')),
       ConsoleLog []])"
  by (simp add: server_ready_action_def logHardhatNetworkAccounts_def prim_defs)

lemma server_ready_action_accepted:
  "accounts (config_networks_hardhat hre) = Some accs \<Longrightarrow>
   \<forall>a \<in> set accs. key_error w a = None \<Longrightarrow>
   server_ready_action w hre address port p s =
     (Inr (),
      ConsoleLog (chalk_green w
        (''Started HTTP and WebSocket JSON-RPC server at http://'' @ address @ '':''
           @ numberToString w port @ ''/''))
      # ConsoleLog []
      # ConsoleLog ''Accounts'' # ConsoleLog ''========''
      # map (\<lambda>(index, account). ConsoleLog (projr (account_block w index account)))
          (enumerate 0 accs))"
proof -
  assume accs: "accounts (config_networks_hardhat hre) = Some accs"
     and ok: "\<forall>a \<in> set accs. key_error w a = None"
  from ok have "\<forall>x \<in> set (enumerate 0 accs). key_error w (snd x) = None"
    by (auto simp: in_set_enumerate_eq)
  from logAccounts_loop_accepted [OF this] accs show ?thesis
    by (simp add: server_ready_action_def logHardhatNetworkAccounts_def prim_defs)
qed

lemma server_ready_action_refused:
  "accounts (config_networks_hardhat hre) = Some accs \<Longrightarrow> k < length accs \<Longrightarrow>
   \<forall>j < k. key_error w (accs ! j) = None \<Longrightarrow> key_error w (accs ! k) = Some e \<Longrightarrow>
   server_ready_action w hre address port p s =
     (Inl e,
      ConsoleLog (chalk_green w
        (''Started HTTP and WebSocket JSON-RPC server at http://'' @ address @ '':''
           @ numberToString w port @ ''/''))
      # ConsoleLog []
      # ConsoleLog ''Accounts'' # ConsoleLog ''========''
      # map (\<lambda>(index, account). ConsoleLog (projr (account_block w index account)))
          (take k (enumerate 0 accs)))"
proof -
  assume accs: "accounts (config_networks_hardhat hre) = Some accs"
     and k: "k < length accs"
     and before: "\<forall>j < k. key_error w (accs ! j) = None"
     and at: "key_error w (accs ! k) = Some e"
  have "k < length (enumerate 0 accs)" using k by simp
  moreover have "\<forall>j < k. key_error w (snd (enumerate 0 accs ! j)) = None"
    using before k by (simp add: nth_enumerate_eq)
  moreover have "key_error w (snd (enumerate 0 accs ! k)) = Some e"
    using at k by (simp add: nth_enumerate_eq)
  ultimately have "logAccounts_loop w (enumerate 0 accs)
       = (Inl e, map (\<lambda>(index, account).
                        ConsoleLog (projr (account_block w index account)))
                   (take k (enumerate 0 accs)))"
    by (rule logAccounts_loop_refused)
  with accs show ?thesis
    by (simp add: server_ready_action_def logHardhatNetworkAccounts_def prim_defs)
qed

lemma server_ready_action_ok:
  "keys_accepted w hre \<Longrightarrow> fst (server_ready_action w hre address port p s) = Inr ()"
  by (cases "accounts (config_networks_hardhat hre)")
     (simp_all add: keys_accepted_def server_ready_action_none server_ready_action_accepted)

lemma default_server_ready:
  "keys_accepted w hre \<Longrightarrow>
   task_server_ready (default_tasks w hre) address port p s
     = (Inr (), snd (server_ready_action w hre address port p s))"
  using server_ready_action_ok [of w hre address port p s]
  by (simp add: default_tasks_def prod_eq_iff)

lemma default_server_created:
  "task_server_created (default_tasks w hre) h port p s = (Inr (), [])"
  by (simp add: default_tasks_def server_created_action_def return_def)

lemma default_create_server:
  "task_create_server (default_tasks w hre) h port p
     = (newJsonRpcServer_answer w
          \<lparr>config_hostname = h, config_port = port, config_provider = p\<rparr>,
        [NewJsonRpcServer \<lparr>config_hostname = h, config_port = port, config_provider = p\<rparr>])"
  by (simp add: default_tasks_def create_server_action_def newJsonRpcServer_def call_def Let_def)

lemma default_get_provider_plain:
  assumes "network_name hre = HARDHAT_NETWORK_NAME"
      and "forking (config_networks_hardhat hre) = None"
      and "request_answer w (network_provider hre) hardhat_setLoggingEnabled = None"
  shows "task_get_provider (default_tasks w hre) None None
           = (Inr (network_provider hre),
              [ProviderRequest (network_provider hre) hardhat_setLoggingEnabled])"
  using assms
  by (simp add: default_tasks_def get_provider_action_def nullish_def request_def prim_defs)

lemma get_provider_block_without_url:
  assumes "forking (config_networks_hardhat hre) = None"
      and "network_name hre \<noteq> HARDHAT_NETWORK_NAME \<longrightarrow>
             createProvider_answer w HARDHAT_NETWORK_NAME (config_networks_hardhat hre)
               (config_paths hre) (env_artifacts hre) = Inr p"
  shows "get_provider_action w hre (Some n) None
           = (Inl (HardhatError NODE_FORK_BLOCK_NUMBER_WITHOUT_URL [] None),
              if network_name hre \<noteq> HARDHAT_NETWORK_NAME
              then [DebugLog ''Creating hardhat provider for JSON-RPC server'' None,
                    CreateProvider HARDHAT_NETWORK_NAME (config_networks_hardhat hre)
                      (config_paths hre) (env_artifacts hre)]
              else [])"
  using assms
  by (simp add: get_provider_action_def nullish_def createProvider_def prim_defs)

subsection \<open>The examples\<close>

lemmas example_defs = example_world_def example_env_def docker_world_def
  watch_failing_world_def port_in_use_world_def HARDHAT_NETWORK_NAME_def

lemmas key_defs = example_toBuffer_def example_bufferToHex_def example_privateToAddress_def
  account0_key_def account0_address_def account1_key_def account1_address_def hex_value_def

lemma example_toBuffer_account0:
  "bufferToHex example_world (projr (toBuffer example_world account0_key)) = account0_key"
  "\<exists>keyBuffer. toBuffer example_world account0_key = Inr keyBuffer
                \<and> length keyBuffer = 32"
  by (simp_all add: example_world_def key_defs)

lemma example_toBuffer_account1:
  "bufferToHex example_world (projr (toBuffer example_world account1_key)) = account1_key"
  "\<exists>keyBuffer. toBuffer example_world account1_key = Inr keyBuffer
                \<and> length keyBuffer = 32"
  by (simp_all add: example_world_def key_defs)

lemma example_address_account0:
  "toBuffer example_world account0_key = Inr keyBuffer \<Longrightarrow>
   \<exists>addressBuffer. privateToAddress example_world keyBuffer = Inr addressBuffer
                    \<and> bufferToHex example_world addressBuffer = account0_address"
  using example_toBuffer_account0(2)
  by (auto simp: example_world_def example_privateToAddress_def)
     (simp add: key_defs)

lemma example_address_account1:
  "toBuffer example_world account1_key = Inr keyBuffer \<Longrightarrow>
   \<exists>addressBuffer. privateToAddress example_world keyBuffer = Inr addressBuffer
                    \<and> bufferToHex example_world addressBuffer = account1_address"
  using example_toBuffer_account1(2)
  by (auto simp: example_world_def example_privateToAddress_def)
     (simp_all add: key_defs)

lemma example_key_error:
  "key_error example_world \<lparr>privateKey = account0_key, balance = b0\<rparr> = None"
  "key_error example_world \<lparr>privateKey = account1_key, balance = b1\<rparr> = None"
  using example_toBuffer_account0(2) example_address_account0
        example_toBuffer_account1(2) example_address_account1
  by (auto simp: key_error_None)

lemma key_error_update [simp]:
  "key_error (w\<lparr>existsSync := ex\<rparr>) = key_error w"
  "key_error (w\<lparr>listen_answer := li\<rparr>) = key_error w"
  "key_error (w\<lparr>watchCompilerOutput_answer := wa\<rparr>) = key_error w"
  by (simp_all add: key_error_def fun_eq_iff split: sum.splits)

lemma example_keys_accepted:
  "keys_accepted example_world example_env"
  "keys_accepted docker_world example_env"
  "keys_accepted watch_failing_world example_env"
  "keys_accepted port_in_use_world example_env"
  using example_key_error
  by (simp_all add: keys_accepted_def example_env_def docker_world_def
        watch_failing_world_def port_in_use_world_def)

lemma example_valid:
  "network_name example_env = HARDHAT_NETWORK_NAME \<or> hardhatArguments_network example_env = None"
  by (simp add: example_defs)

lemma example_get_provider:
  "task_get_provider (default_tasks example_world example_env) None None
     = (Inr (Provider 0), [ProviderRequest (Provider 0) hardhat_setLoggingEnabled])"
  "task_get_provider (default_tasks docker_world example_env) None None
     = (Inr (Provider 0), [ProviderRequest (Provider 0) hardhat_setLoggingEnabled])"
  "task_get_provider (default_tasks watch_failing_world example_env) None None
     = (Inr (Provider 0), [ProviderRequest (Provider 0) hardhat_setLoggingEnabled])"
  "task_get_provider (default_tasks port_in_use_world example_env) None None
     = (Inr (Provider 0), [ProviderRequest (Provider 0) hardhat_setLoggingEnabled])"
  using default_get_provider_plain [of example_env example_world]
    default_get_provider_plain [of example_env docker_world]
    default_get_provider_plain [of example_env watch_failing_world]
    default_get_provider_plain [of example_env port_in_use_world]
  by (simp_all add: example_defs)

lemma example_launch:
  "node_action example_world example_env (default_tasks example_world example_env)
     None None None 0
     = (Inr (),
        [Run TASK_NODE_GET_PROVIDER (GetProviderArgs None None)
           [ProviderRequest (Provider 0) hardhat_setLoggingEnabled],
         Run TASK_NODE_CREATE_SERVER (CreateServerArgs ''localhost'' 0 (Provider 0))
           [NewJsonRpcServer \<lparr>config_hostname = ''localhost'', config_port = 0,
                               config_provider = Provider 0\<rparr>],
         Run TASK_NODE_SERVER_CREATED
           (ServerCreatedArgs ''localhost'' 0 (Provider 0) (Server 0)) [],
         Listen (Server 0),
         WatchCompilerOutput (Provider 0) (ProjectPaths ''/project''),
         Run TASK_NODE_SERVER_READY
           (ServerReadyArgs ''127.0.0.1'' 49152 (Provider 0) (Server 0))
           (snd (server_ready_action example_world example_env ''127.0.0.1'' 49152
                   (Provider 0) (Server 0))),
         WaitUntilClosed (Server 0)])"
proof -
  have h: "node_hostname example_world None = ''localhost''"
    by (simp add: node_hostname_def example_defs)
  have cs: "task_create_server (default_tasks example_world example_env)
              (node_hostname example_world None) 0 (Provider 0)
            = (Inr (Server 0),
               [NewJsonRpcServer \<lparr>config_hostname = ''localhost'', config_port = 0,
                                   config_provider = Provider 0\<rparr>])"
    by (simp add: default_create_server h) (simp add: example_defs)
  have li: "listen_answer example_world (Server 0) = Inr (49152, ''127.0.0.1'')"
    by (simp add: example_defs)
  from reaches_server_ready [OF example_valid example_get_provider(1) cs
      default_server_created li default_server_ready [OF example_keys_accepted(1)]]
  show ?thesis
    by (simp add: h watch_effects_def) (simp add: example_defs)
qed

lemma watch_failing_launch:
  "node_action watch_failing_world example_env (default_tasks watch_failing_world example_env)
     None None None 8545
     = (Inr (),
        [Run TASK_NODE_GET_PROVIDER (GetProviderArgs None None)
           [ProviderRequest (Provider 0) hardhat_setLoggingEnabled],
         Run TASK_NODE_CREATE_SERVER (CreateServerArgs ''localhost'' 8545 (Provider 0))
           [NewJsonRpcServer \<lparr>config_hostname = ''localhost'', config_port = 8545,
                               config_provider = Provider 0\<rparr>],
         Run TASK_NODE_SERVER_CREATED
           (ServerCreatedArgs ''localhost'' 8545 (Provider 0) (Server 0)) [],
         Listen (Server 0),
         WatchCompilerOutput (Provider 0) (ProjectPaths ''/project''),
         ConsoleWarn watch_warning,
         DebugLog watch_debug (Some (Error ''boom'')),
         ReportError (Error ''boom''),
         Run TASK_NODE_SERVER_READY
           (ServerReadyArgs ''127.0.0.1'' 49152 (Provider 0) (Server 0))
           (snd (server_ready_action watch_failing_world example_env ''127.0.0.1'' 49152
                   (Provider 0) (Server 0))),
         WaitUntilClosed (Server 0)])"
proof -
  have h: "node_hostname watch_failing_world None = ''localhost''"
    by (simp add: node_hostname_def example_defs)
  have cs: "task_create_server (default_tasks watch_failing_world example_env)
              (node_hostname watch_failing_world None) 8545 (Provider 0)
            = (Inr (Server 0),
               [NewJsonRpcServer \<lparr>config_hostname = ''localhost'', config_port = 8545,
                                   config_provider = Provider 0\<rparr>])"
    by (simp add: default_create_server h) (simp add: example_defs)
  have li: "listen_answer watch_failing_world (Server 0) = Inr (49152, ''127.0.0.1'')"
    by (simp add: example_defs)
  from reaches_server_ready [OF example_valid example_get_provider(3) cs
      default_server_created li default_server_ready [OF example_keys_accepted(3)]]
  show ?thesis
    by (simp add: h watch_effects_def) (simp add: example_defs)
qed

subsection \<open>Validation of the network (lines 240 to 248)\<close>

lemma node_begins:
  assumes "\<not> (network_name hre \<noteq> HARDHAT_NETWORK_NAME \<and> hardhatArguments_network hre \<noteq> None)"
  shows "\<exists>rest. snd (node_action w hre ts fbn furl hostnameParam port)
           = Run TASK_NODE_GET_PROVIDER (GetProviderArgs fbn furl)
               (snd (task_get_provider ts fbn furl)) # rest"
proof -
  let ?first = "run TASK_NODE_GET_PROVIDER (GetProviderArgs fbn furl)
                  (task_get_provider ts fbn furl)"
  obtain body handler where
    eq: "node_action w hre ts fbn furl hostnameParam port
           = tryCatch (andThen ?first body) handler"
    using assms unfolding node_action_def by auto
  obtain r1 where "snd (tryCatch (andThen ?first body) handler)
                     = snd (andThen ?first body) @ r1"
    using snd_tryCatch by blast
  moreover obtain r2 where "snd (andThen ?first body) = snd ?first @ r2"
    using snd_andThen by blast
  ultimately show ?thesis
    by (simp add: eq snd_run)
qed

text \<open>
  C2. The task fails with \<open>JSONRPC_UNSUPPORTED_NETWORK\<close> as its very first step, with
  no effect before it, exactly when the network in use is not the Hardhat network and a
  network was named on the command line. In every other launch, so in every launch on the
  Hardhat network whatever the command line named, the check passes and the first effect
  is the call of the provider subtask; a failure of the check therefore always comes
  before provider resolution.
\<close>

theorem unsupported_network_iff:
  "((node_action w hre ts fbn furl hostnameParam port
       = (Inl (HardhatError JSONRPC_UNSUPPORTED_NETWORK [] None), []))
    = (network_name hre \<noteq> HARDHAT_NETWORK_NAME \<and> hardhatArguments_network hre \<noteq> None))
   \<and> (network_name hre = HARDHAT_NETWORK_NAME \<or> hardhatArguments_network hre = None \<longrightarrow>
        (\<exists>rest. snd (node_action w hre ts fbn furl hostnameParam port)
           = Run TASK_NODE_GET_PROVIDER (GetProviderArgs fbn furl)
               (snd (task_get_provider ts fbn furl)) # rest))"
proof (intro conjI impI)
  let ?unsupported =
    "network_name hre \<noteq> HARDHAT_NETWORK_NAME \<and> hardhatArguments_network hre \<noteq> None"
  let ?failed = "node_action w hre ts fbn furl hostnameParam port
                   = (Inl (HardhatError JSONRPC_UNSUPPORTED_NETWORK [] None), [])"
  show "?failed = ?unsupported"
  proof
    assume failed: ?failed
    show ?unsupported
    proof (rule ccontr)
      assume "\<not> ?unsupported"
      from node_begins [OF this, of w ts fbn furl hostnameParam port] failed
      show False by auto
    qed
  next
    assume ?unsupported
    then show ?failed
      by (simp add: node_action_def throw_def)
  qed
next
  assume "network_name hre = HARDHAT_NETWORK_NAME \<or> hardhatArguments_network hre = None"
  then have "\<not> (network_name hre \<noteq> HARDHAT_NETWORK_NAME
                 \<and> hardhatArguments_network hre \<noteq> None)"
    by auto
  from node_begins [OF this]
  show "\<exists>rest. snd (node_action w hre ts fbn furl hostnameParam port)
       = Run TASK_NODE_GET_PROVIDER (GetProviderArgs fbn furl)
           (snd (task_get_provider ts fbn furl)) # rest" .
qed

text \<open>
  Two launches with \<open>--network\<close> given: on a network named \<open>localhost\<close> the task
  fails at once; on the Hardhat network itself it goes on to resolve the provider.
\<close>

theorem unsupported_network_iff_witness:
  "node_action example_world
     (example_env\<lparr>network_name := ''localhost'', hardhatArguments_network := Some ''localhost''\<rparr>)
     (default_tasks example_world example_env) None None None 8545
     = (Inl (HardhatError JSONRPC_UNSUPPORTED_NETWORK [] None), [])
   \<and> hd (snd (node_action example_world
                (example_env\<lparr>hardhatArguments_network := Some ''hardhat''\<rparr>)
                (default_tasks example_world example_env) None None None 8545))
     = Run TASK_NODE_GET_PROVIDER (GetProviderArgs None None)
         [ProviderRequest (Provider 0) hardhat_setLoggingEnabled]"
proof (intro conjI)
  show "node_action example_world
     (example_env\<lparr>network_name := ''localhost'', hardhatArguments_network := Some ''localhost''\<rparr>)
     (default_tasks example_world example_env) None None None 8545
     = (Inl (HardhatError JSONRPC_UNSUPPORTED_NETWORK [] None), [])"
    using unsupported_network_iff
      [of example_world
          "example_env\<lparr>network_name := ''localhost'',
                        hardhatArguments_network := Some ''localhost''\<rparr>"
          "default_tasks example_world example_env" None None None 8545]
    by (simp add: HARDHAT_NETWORK_NAME_def)
next
  have "snd (task_get_provider (default_tasks example_world example_env) None None)
          = [ProviderRequest (Provider 0) hardhat_setLoggingEnabled]"
    by (simp add: default_tasks_def get_provider_action_def example_env_def example_world_def
          HARDHAT_NETWORK_NAME_def nullish_def request_def prim_defs)
  with unsupported_network_iff
      [of example_world "example_env\<lparr>hardhatArguments_network := Some ''hardhat''\<rparr>"
          "default_tasks example_world example_env" None None None 8545]
  show "hd (snd (node_action example_world
                (example_env\<lparr>hardhatArguments_network := Some ''hardhat''\<rparr>)
                (default_tasks example_world example_env) None None None 8545))
     = Run TASK_NODE_GET_PROVIDER (GetProviderArgs None None)
         [ProviderRequest (Provider 0) hardhat_setLoggingEnabled]"
    by (auto simp: example_env_def HARDHAT_NETWORK_NAME_def)
qed

subsection \<open>The hostname (lines 256 to 268)\<close>

text \<open>
  C3. In every launch that gets as far as creating the server, the hostname handed to the
  server subtask is the \<open>hostname\<close> parameter, unchanged, when one is given; without
  one it is \<open>0.0.0.0\<close> (all interfaces) when the file \<open>/.dockerenv\<close> exists and
  \<open>localhost\<close> (the loopback host) when it does not.
\<close>

theorem hostname_resolved:
  assumes "network_name hre = HARDHAT_NETWORK_NAME \<or> hardhatArguments_network hre = None"
      and "task_get_provider ts fbn furl = (Inr p, t0)"
  shows "\<exists>h rest.
           snd (node_action w hre ts fbn furl hostnameParam port)
             = Run TASK_NODE_GET_PROVIDER (GetProviderArgs fbn furl) t0
               # Run TASK_NODE_CREATE_SERVER (CreateServerArgs h port p)
                   (snd (task_create_server ts h port p))
               # rest
         \<and> (\<forall>x. hostnameParam = Some x \<longrightarrow> h = x)
         \<and> (hostnameParam = None \<and> existsSync w ''/.dockerenv'' \<longrightarrow> h = ''0.0.0.0'')
         \<and> (hostnameParam = None \<and> \<not> existsSync w ''/.dockerenv'' \<longrightarrow> h = ''localhost'')"
proof -
  from node_creates_server [OF assms, of w hostnameParam port]
  obtain rest where
    "snd (node_action w hre ts fbn furl hostnameParam port)
       = Run TASK_NODE_GET_PROVIDER (GetProviderArgs fbn furl) t0
         # Run TASK_NODE_CREATE_SERVER (CreateServerArgs (node_hostname w hostnameParam) port p)
             (snd (task_create_server ts (node_hostname w hostnameParam) port p))
         # rest"
    by blast
  moreover have "\<forall>x. hostnameParam = Some x \<longrightarrow> node_hostname w hostnameParam = x"
    by (simp add: node_hostname_def)
  moreover have "hostnameParam = None \<and> existsSync w ''/.dockerenv''
                   \<longrightarrow> node_hostname w hostnameParam = ''0.0.0.0''"
    by (simp add: node_hostname_def)
  moreover have "hostnameParam = None \<and> \<not> existsSync w ''/.dockerenv''
                   \<longrightarrow> node_hostname w hostnameParam = ''localhost''"
    by (simp add: node_hostname_def)
  ultimately show ?thesis
    by blast
qed

text \<open>
  The three cases, with the registered subtasks: a hostname given, none given in a
  container, none given outside one.
\<close>

theorem hostname_resolved_witness:
  "hd (tl (snd (node_action example_world example_env
                  (default_tasks example_world example_env)
                  None None (Some ''192.168.1.5'') 8545)))
     = Run TASK_NODE_CREATE_SERVER (CreateServerArgs ''192.168.1.5'' 8545 (Provider 0))
         [NewJsonRpcServer \<lparr>config_hostname = ''192.168.1.5'', config_port = 8545,
                             config_provider = Provider 0\<rparr>]
   \<and> hd (tl (snd (node_action docker_world example_env
                  (default_tasks docker_world example_env) None None None 8545)))
     = Run TASK_NODE_CREATE_SERVER (CreateServerArgs ''0.0.0.0'' 8545 (Provider 0))
         [NewJsonRpcServer \<lparr>config_hostname = ''0.0.0.0'', config_port = 8545,
                             config_provider = Provider 0\<rparr>]
   \<and> hd (tl (snd (node_action example_world example_env
                  (default_tasks example_world example_env) None None None 8545)))
     = Run TASK_NODE_CREATE_SERVER (CreateServerArgs ''localhost'' 8545 (Provider 0))
         [NewJsonRpcServer \<lparr>config_hostname = ''localhost'', config_port = 8545,
                             config_provider = Provider 0\<rparr>]"
proof (intro conjI)
  from hostname_resolved [OF example_valid example_get_provider(1),
      of example_world "Some ''192.168.1.5''" 8545]
  show "hd (tl (snd (node_action example_world example_env
                  (default_tasks example_world example_env)
                  None None (Some ''192.168.1.5'') 8545)))
     = Run TASK_NODE_CREATE_SERVER (CreateServerArgs ''192.168.1.5'' 8545 (Provider 0))
         [NewJsonRpcServer \<lparr>config_hostname = ''192.168.1.5'', config_port = 8545,
                             config_provider = Provider 0\<rparr>]"
    by (auto simp: default_create_server)
next
  have "existsSync docker_world ''/.dockerenv''"
    by (simp add: example_defs)
  with hostname_resolved [OF example_valid example_get_provider(2), of docker_world None 8545]
  show "hd (tl (snd (node_action docker_world example_env
                  (default_tasks docker_world example_env) None None None 8545)))
     = Run TASK_NODE_CREATE_SERVER (CreateServerArgs ''0.0.0.0'' 8545 (Provider 0))
         [NewJsonRpcServer \<lparr>config_hostname = ''0.0.0.0'', config_port = 8545,
                             config_provider = Provider 0\<rparr>]"
    by (auto simp: default_create_server)
next
  have "\<not> existsSync example_world ''/.dockerenv''"
    by (simp add: example_defs)
  with hostname_resolved [OF example_valid example_get_provider(1), of example_world None 8545]
  show "hd (tl (snd (node_action example_world example_env
                  (default_tasks example_world example_env) None None None 8545)))
     = Run TASK_NODE_CREATE_SERVER (CreateServerArgs ''localhost'' 8545 (Provider 0))
         [NewJsonRpcServer \<lparr>config_hostname = ''localhost'', config_port = 8545,
                             config_provider = Provider 0\<rparr>]"
    by (auto simp: default_create_server)
qed

subsection \<open>The two hooks and \<open>listen\<close> (lines 276 to 307)\<close>

text \<open>
  C5. In every launch that reaches the serving state, that is, one that calls
  \<open>waitUntilClosed\<close> or returns normally, the effects of the task are, in this
  order: provider resolution, server creation, the server-created hook with all its
  effects, then \<open>server.listen()\<close>, then the watcher, then the server-ready hook,
  then \<open>waitUntilClosed\<close>. So the server-created hook has run to its end before
  \<open>listen\<close> is called, the server-ready hook starts after \<open>listen\<close> has
  answered, and the address and port it receives are those \<open>listen\<close> answered,
  not the requested ones.
\<close>

theorem hooks_order:
  assumes "fst (node_action w hre ts fbn furl hostnameParam port) = Inr ()
           \<or> (\<exists>s. WaitUntilClosed s
                    \<in> set (snd (node_action w hre ts fbn furl hostnameParam port)))"
  shows "\<exists>p s h actualPort address t0 t1 t2 t3.
           listen_answer w s = Inr (actualPort, address)
         \<and> snd (node_action w hre ts fbn furl hostnameParam port)
             = [Run TASK_NODE_GET_PROVIDER (GetProviderArgs fbn furl) t0,
                Run TASK_NODE_CREATE_SERVER (CreateServerArgs h port p) t1,
                Run TASK_NODE_SERVER_CREATED (ServerCreatedArgs h port p s) t2,
                Listen s]
               @ watch_effects w hre p
               @ [Run TASK_NODE_SERVER_READY (ServerReadyArgs address actualPort p s) t3,
                  WaitUntilClosed s]"
  using assms
proof
  assume "fst (node_action w hre ts fbn furl hostnameParam port) = Inr ()"
  then have "node_action w hre ts fbn furl hostnameParam port
               = (Inr (), snd (node_action w hre ts fbn furl hostnameParam port))"
    by (simp add: prod_eq_iff)
  from node_succeeds [OF this] show ?thesis by blast
next
  assume "\<exists>s. WaitUntilClosed s
                \<in> set (snd (node_action w hre ts fbn furl hostnameParam port))"
  then obtain s' where
    "WaitUntilClosed s' \<in> set (snd (node_action w hre ts fbn furl hostnameParam port))"
    by blast
  from node_serving [OF this] show ?thesis by blast
qed

text \<open>
  Port 0 is requested; the server answers that it is bound to port 49152, and that is the
  port the server-ready hook receives.
\<close>

theorem hooks_order_witness:
  "fst (node_action example_world example_env (default_tasks example_world example_env)
          None None None 0) = Inr ()
   \<and> (\<exists>t0 t1 t2 t3.
         snd (node_action example_world example_env (default_tasks example_world example_env)
                None None None 0)
         = [Run TASK_NODE_GET_PROVIDER (GetProviderArgs None None) t0,
            Run TASK_NODE_CREATE_SERVER (CreateServerArgs ''localhost'' 0 (Provider 0)) t1,
            Run TASK_NODE_SERVER_CREATED
              (ServerCreatedArgs ''localhost'' 0 (Provider 0) (Server 0)) t2,
            Listen (Server 0),
            WatchCompilerOutput (Provider 0) (ProjectPaths ''/project''),
            Run TASK_NODE_SERVER_READY
              (ServerReadyArgs ''127.0.0.1'' 49152 (Provider 0) (Server 0)) t3,
            WaitUntilClosed (Server 0)])
   \<and> listen_answer example_world (Server 0) = Inr (49152, ''127.0.0.1'')"
proof -
  have ok: "fst (node_action example_world example_env
                   (default_tasks example_world example_env) None None None 0) = Inr ()"
    by (simp add: example_launch)
  then have "fst (node_action example_world example_env
                   (default_tasks example_world example_env) None None None 0) = Inr ()
           \<or> (\<exists>s. WaitUntilClosed s
                    \<in> set (snd (node_action example_world example_env
                                   (default_tasks example_world example_env)
                                   None None None 0)))"
    by blast
  from hooks_order [OF this]
  obtain p s h actualPort address t0 t1 t2 t3 where
    li: "listen_answer example_world s = Inr (actualPort, address)" and
    tr: "snd (node_action example_world example_env
                (default_tasks example_world example_env) None None None 0)
       = [Run TASK_NODE_GET_PROVIDER (GetProviderArgs None None) t0,
          Run TASK_NODE_CREATE_SERVER (CreateServerArgs h 0 p) t1,
          Run TASK_NODE_SERVER_CREATED (ServerCreatedArgs h 0 p s) t2,
          Listen s]
         @ watch_effects example_world example_env p
         @ [Run TASK_NODE_SERVER_READY (ServerReadyArgs address actualPort p s) t3,
            WaitUntilClosed s]"
    by blast
  from tr have "s = Server 0" by (simp add: example_launch)
  with li have "listen_answer example_world (Server 0) = Inr (actualPort, address)" by simp
  moreover have "listen_answer example_world (Server 0) = Inr (49152, ''127.0.0.1'')"
    by (simp add: example_defs)
  ultimately show ?thesis
    using ok by (simp add: example_launch)
qed

subsection \<open>A failing watcher (lines 285 to 300)\<close>

text \<open>
  C6. When the phases up to \<open>listen\<close> have succeeded and the watcher throws
  \<open>err\<close>, the error is caught: a warning is written to the console, the error goes
  to the debug log and to the error reporter, and the next effect is the call of the
  server-ready hook with the bound address and port. When the hook returns, the task
  reaches \<open>waitUntilClosed\<close>, and its outcome is that of \<open>waitUntilClosed\<close>;
  when the hook itself fails, the outcome is that failure. Either way the outcome is the
  one the same launch has with a watcher that does not fail.
\<close>

theorem watcher_failure_absorbed:
  assumes "network_name hre = HARDHAT_NETWORK_NAME \<or> hardhatArguments_network hre = None"
      and "task_get_provider ts fbn furl = (Inr p, t0)"
      and "task_create_server ts (node_hostname w hostnameParam) port p = (Inr s, t1)"
      and "task_server_created ts (node_hostname w hostnameParam) port p s = (Inr (), t2)"
      and "listen_answer w s = Inr (actualPort, address)"
      and "watchCompilerOutput_answer w p (config_paths hre) = Some err"
      and "task_server_ready ts address actualPort p s = (r3, t3)"
  shows "node_action w hre ts fbn furl hostnameParam port =
           ((case r3 of
               Inl e \<Rightarrow> Inl (launch_failure e)
             | Inr u \<Rightarrow>
                 (case waitUntilClosed_answer w s of
                    None \<Rightarrow> Inr ()
                  | Some e \<Rightarrow> Inl (launch_failure e))),
            [Run TASK_NODE_GET_PROVIDER (GetProviderArgs fbn furl) t0,
             Run TASK_NODE_CREATE_SERVER
               (CreateServerArgs (node_hostname w hostnameParam) port p) t1,
             Run TASK_NODE_SERVER_CREATED
               (ServerCreatedArgs (node_hostname w hostnameParam) port p s) t2,
             Listen s,
             WatchCompilerOutput p (config_paths hre),
             ConsoleWarn (chalk_yellow w watch_warning),
             DebugLog watch_debug (Some err),
             ReportError err,
             Run TASK_NODE_SERVER_READY (ServerReadyArgs address actualPort p s) t3]
            @ (case r3 of Inl e \<Rightarrow> [] | Inr u \<Rightarrow> [WaitUntilClosed s]))
         \<and> fst (node_action w hre ts fbn furl hostnameParam port)
             = fst (node_action (w\<lparr>watchCompilerOutput_answer := (\<lambda>p paths. None)\<rparr>)
                      hre ts fbn furl hostnameParam port)"
  using reaches_server_ready [OF assms(1-5) assms(7)] assms(6)
    watcher_irrelevant
  by (simp add: watch_effects_def)

text \<open>The watcher fails with \<open>boom\<close>; the launch goes on and returns normally.\<close>

theorem watcher_failure_absorbed_witness:
  "watchCompilerOutput_answer watch_failing_world (Provider 0) (config_paths example_env)
     = Some (Error ''boom'')
   \<and> node_action watch_failing_world example_env
       (default_tasks watch_failing_world example_env) None None None 8545
     = (Inr (),
        [Run TASK_NODE_GET_PROVIDER (GetProviderArgs None None)
           [ProviderRequest (Provider 0) hardhat_setLoggingEnabled],
         Run TASK_NODE_CREATE_SERVER (CreateServerArgs ''localhost'' 8545 (Provider 0))
           [NewJsonRpcServer \<lparr>config_hostname = ''localhost'', config_port = 8545,
                               config_provider = Provider 0\<rparr>],
         Run TASK_NODE_SERVER_CREATED
           (ServerCreatedArgs ''localhost'' 8545 (Provider 0) (Server 0)) [],
         Listen (Server 0),
         WatchCompilerOutput (Provider 0) (ProjectPaths ''/project''),
         ConsoleWarn watch_warning,
         DebugLog watch_debug (Some (Error ''boom'')),
         ReportError (Error ''boom''),
         Run TASK_NODE_SERVER_READY
           (ServerReadyArgs ''127.0.0.1'' 49152 (Provider 0) (Server 0))
           (snd (server_ready_action watch_failing_world example_env ''127.0.0.1'' 49152
                   (Provider 0) (Server 0))),
         WaitUntilClosed (Server 0)])"
proof -
  have h: "node_hostname watch_failing_world None = ''localhost''"
    by (simp add: node_hostname_def example_defs)
  have cs: "task_create_server (default_tasks watch_failing_world example_env)
              (node_hostname watch_failing_world None) 8545 (Provider 0)
            = (Inr (Server 0),
               [NewJsonRpcServer \<lparr>config_hostname = ''localhost'', config_port = 8545,
                                   config_provider = Provider 0\<rparr>])"
    by (simp add: default_create_server h) (simp add: example_defs)
  have li: "listen_answer watch_failing_world (Server 0) = Inr (49152, ''127.0.0.1'')"
    by (simp add: example_defs)
  have wa: "watchCompilerOutput_answer watch_failing_world (Provider 0)
              (config_paths example_env) = Some (Error ''boom'')"
    by (simp add: example_defs)
  from watcher_failure_absorbed [OF example_valid example_get_provider(3) cs
      default_server_created li wa default_server_ready [OF example_keys_accepted(3)]]
  show ?thesis
    using wa by (simp add: h) (simp add: example_defs)
qed

subsection \<open>Errors that leave the task (lines 250 and 310 to 322)\<close>

text \<open>
  C7, as the claim has it, fails: an error thrown by the watcher, a phase before the
  serving state, is neither wrapped nor thrown again. Here the watcher throws the plain
  error \<open>boom\<close> and the launch returns normally.
\<close>

theorem launch_errors_rethrown_counterexample:
  "watchCompilerOutput watch_failing_world (Provider 0) (config_paths example_env)
     = (Inl (Error ''boom''),
        [WatchCompilerOutput (Provider 0) (config_paths example_env)])
   \<and> \<not> isHardhatError (Error ''boom'')
   \<and> fst (node_action watch_failing_world example_env
            (default_tasks watch_failing_world example_env) None None None 8545)
     = Inr ()"
  by (simp add: watch_failing_launch) (simp add: watchCompilerOutput_def example_defs)

text \<open>
  C7, amended. Every error that leaves a phase inside the \<open>try\<close> block other than
  the watcher (provider resolution, server creation, the server-created hook,
  \<open>listen\<close>, the server-ready hook, \<open>waitUntilClosed\<close>) ends the task with
  \<open>launch_failure\<close> of that error: the error itself when it is a \<open>HardhatError\<close>,
  and otherwise a \<open>HardhatError\<close> with descriptor \<open>JSONRPC_SERVER_ERROR\<close>, the
  original message as its argument and the original error as its parent.
\<close>

theorem launch_errors_rethrown:
  assumes valid:
    "network_name hre = HARDHAT_NETWORK_NAME \<or> hardhatArguments_network hre = None"
  shows "(\<forall>e t0. task_get_provider ts fbn furl = (Inl e, t0) \<longrightarrow>
            fst (node_action w hre ts fbn furl hostnameParam port) = Inl (launch_failure e))
       \<and> (\<forall>p t0 e t1.
            task_get_provider ts fbn furl = (Inr p, t0)
          \<and> task_create_server ts (node_hostname w hostnameParam) port p = (Inl e, t1) \<longrightarrow>
            fst (node_action w hre ts fbn furl hostnameParam port) = Inl (launch_failure e))
       \<and> (\<forall>p t0 s t1 e t2.
            task_get_provider ts fbn furl = (Inr p, t0)
          \<and> task_create_server ts (node_hostname w hostnameParam) port p = (Inr s, t1)
          \<and> task_server_created ts (node_hostname w hostnameParam) port p s = (Inl e, t2) \<longrightarrow>
            fst (node_action w hre ts fbn furl hostnameParam port) = Inl (launch_failure e))
       \<and> (\<forall>p t0 s t1 t2 e.
            task_get_provider ts fbn furl = (Inr p, t0)
          \<and> task_create_server ts (node_hostname w hostnameParam) port p = (Inr s, t1)
          \<and> task_server_created ts (node_hostname w hostnameParam) port p s = (Inr (), t2)
          \<and> listen_answer w s = Inl e \<longrightarrow>
            fst (node_action w hre ts fbn furl hostnameParam port) = Inl (launch_failure e))
       \<and> (\<forall>p t0 s t1 t2 actualPort address e t3.
            task_get_provider ts fbn furl = (Inr p, t0)
          \<and> task_create_server ts (node_hostname w hostnameParam) port p = (Inr s, t1)
          \<and> task_server_created ts (node_hostname w hostnameParam) port p s = (Inr (), t2)
          \<and> listen_answer w s = Inr (actualPort, address)
          \<and> task_server_ready ts address actualPort p s = (Inl e, t3) \<longrightarrow>
            fst (node_action w hre ts fbn furl hostnameParam port) = Inl (launch_failure e))
       \<and> (\<forall>p t0 s t1 t2 actualPort address t3 e.
            task_get_provider ts fbn furl = (Inr p, t0)
          \<and> task_create_server ts (node_hostname w hostnameParam) port p = (Inr s, t1)
          \<and> task_server_created ts (node_hostname w hostnameParam) port p s = (Inr (), t2)
          \<and> listen_answer w s = Inr (actualPort, address)
          \<and> task_server_ready ts address actualPort p s = (Inr (), t3)
          \<and> waitUntilClosed_answer w s = Some e \<longrightarrow>
            fst (node_action w hre ts fbn furl hostnameParam port) = Inl (launch_failure e))"
proof (intro conjI allI impI; (elim conjE)?)
  fix e t0
  assume "task_get_provider ts fbn furl = (Inl e, t0)"
  from fails_get_provider [OF valid this]
  show "fst (node_action w hre ts fbn furl hostnameParam port) = Inl (launch_failure e)"
    by simp
next
  fix p t0 e t1
  assume "task_get_provider ts fbn furl = (Inr p, t0)"
     and "task_create_server ts (node_hostname w hostnameParam) port p = (Inl e, t1)"
  from fails_create_server [OF valid this]
  show "fst (node_action w hre ts fbn furl hostnameParam port) = Inl (launch_failure e)"
    by simp
next
  fix p t0 s t1 e t2
  assume "task_get_provider ts fbn furl = (Inr p, t0)"
     and "task_create_server ts (node_hostname w hostnameParam) port p = (Inr s, t1)"
     and "task_server_created ts (node_hostname w hostnameParam) port p s = (Inl e, t2)"
  from fails_server_created [OF valid this]
  show "fst (node_action w hre ts fbn furl hostnameParam port) = Inl (launch_failure e)"
    by simp
next
  fix p t0 s t1 t2 e
  assume "task_get_provider ts fbn furl = (Inr p, t0)"
     and "task_create_server ts (node_hostname w hostnameParam) port p = (Inr s, t1)"
     and "task_server_created ts (node_hostname w hostnameParam) port p s = (Inr (), t2)"
     and "listen_answer w s = Inl e"
  from fails_listen [OF valid this]
  show "fst (node_action w hre ts fbn furl hostnameParam port) = Inl (launch_failure e)"
    by simp
next
  fix p t0 s t1 t2 actualPort address e t3
  assume "task_get_provider ts fbn furl = (Inr p, t0)"
     and "task_create_server ts (node_hostname w hostnameParam) port p = (Inr s, t1)"
     and "task_server_created ts (node_hostname w hostnameParam) port p s = (Inr (), t2)"
     and "listen_answer w s = Inr (actualPort, address)"
     and "task_server_ready ts address actualPort p s = (Inl e, t3)"
  from reaches_server_ready [OF valid this]
  show "fst (node_action w hre ts fbn furl hostnameParam port) = Inl (launch_failure e)"
    by simp
next
  fix p t0 s t1 t2 actualPort address t3 e
  assume "task_get_provider ts fbn furl = (Inr p, t0)"
     and "task_create_server ts (node_hostname w hostnameParam) port p = (Inr s, t1)"
     and "task_server_created ts (node_hostname w hostnameParam) port p s = (Inr (), t2)"
     and "listen_answer w s = Inr (actualPort, address)"
     and "task_server_ready ts address actualPort p s = (Inr (), t3)"
     and "waitUntilClosed_answer w s = Some e"
  from reaches_server_ready [OF valid this(1-5)] this(6)
  show "fst (node_action w hre ts fbn furl hostnameParam port) = Inl (launch_failure e)"
    by simp
qed

text \<open>
  A plain error of \<open>listen\<close> is wrapped; the \<open>HardhatError\<close> of provider
  resolution is not.
\<close>

theorem launch_errors_rethrown_witness:
  "fst (node_action port_in_use_world example_env
          (default_tasks port_in_use_world example_env) None None None 8545)
     = Inl (HardhatError JSONRPC_SERVER_ERROR [(''error'', ''EADDRINUSE'')]
              (Some (Error ''EADDRINUSE'')))
   \<and> fst (node_action example_world example_env
          (default_tasks example_world example_env) (Some 100) None None 8545)
     = Inl (HardhatError NODE_FORK_BLOCK_NUMBER_WITHOUT_URL [] None)"
proof (intro conjI)
  have h: "node_hostname port_in_use_world None = ''localhost''"
    by (simp add: node_hostname_def example_defs)
  have cs: "task_create_server (default_tasks port_in_use_world example_env)
              (node_hostname port_in_use_world None) 8545 (Provider 0)
            = (Inr (Server 0),
               [NewJsonRpcServer \<lparr>config_hostname = ''localhost'', config_port = 8545,
                                   config_provider = Provider 0\<rparr>])"
    by (simp add: default_create_server h) (simp add: example_defs)
  have li: "listen_answer port_in_use_world (Server 0) = Inl (Error ''EADDRINUSE'')"
    by (simp add: example_defs)
  note rethrown = launch_errors_rethrown [OF example_valid,
      of "default_tasks port_in_use_world example_env" None None port_in_use_world None 8545]
  from rethrown [THEN conjunct2, THEN conjunct2, THEN conjunct2, THEN conjunct1, rule_format,
      of "Provider 0" _ "Server 0" _ "[]" "Error ''EADDRINUSE''"]
    example_get_provider(4) cs li default_server_created
  have "fst (node_action port_in_use_world example_env
          (default_tasks port_in_use_world example_env) None None None 8545)
     = Inl (launch_failure (Error ''EADDRINUSE''))"
    by simp
  then show "fst (node_action port_in_use_world example_env
          (default_tasks port_in_use_world example_env) None None None 8545)
     = Inl (HardhatError JSONRPC_SERVER_ERROR [(''error'', ''EADDRINUSE'')]
              (Some (Error ''EADDRINUSE'')))"
    by (simp add: launch_failure_def)
next
  have gp: "task_get_provider (default_tasks example_world example_env) (Some 100) None
              = (Inl (HardhatError NODE_FORK_BLOCK_NUMBER_WITHOUT_URL [] None), [])"
    using get_provider_block_without_url [of example_env example_world "Provider 1" 100]
    by (simp add: default_tasks_def) (simp add: example_defs)
  note rethrown = launch_errors_rethrown [OF example_valid,
      of "default_tasks example_world example_env" "Some 100" None example_world None 8545]
  from rethrown [THEN conjunct1, rule_format] gp
  have "fst (node_action example_world example_env
          (default_tasks example_world example_env) (Some 100) None None 8545)
     = Inl (launch_failure (HardhatError NODE_FORK_BLOCK_NUMBER_WITHOUT_URL [] None))"
    by simp
  then show "fst (node_action example_world example_env
          (default_tasks example_world example_env) (Some 100) None None 8545)
     = Inl (HardhatError NODE_FORK_BLOCK_NUMBER_WITHOUT_URL [] None)"
    by (simp add: launch_failure_def)
qed

subsection \<open>A fork block number without a URL (lines 69 to 108)\<close>

text \<open>
  C1, as the claim has it, fails: when the network in use is not the Hardhat network (it
  is the default network of the configuration, none being named on the command line),
  the provider subtask creates the Hardhat provider first and only then finds the block
  number without a URL.
\<close>

theorem fork_block_number_without_url_counterexample:
  "fst (node_action example_world (example_env\<lparr>network_name := ''localhost''\<rparr>)
          (default_tasks example_world (example_env\<lparr>network_name := ''localhost''\<rparr>))
          (Some 100) None None 8545)
     = Inl (HardhatError NODE_FORK_BLOCK_NUMBER_WITHOUT_URL [] None)
   \<and> filter is_creation
        (effects (snd (node_action example_world (example_env\<lparr>network_name := ''localhost''\<rparr>)
          (default_tasks example_world (example_env\<lparr>network_name := ''localhost''\<rparr>))
          (Some 100) None None 8545)))
     = [CreateProvider ''hardhat'' (config_networks_hardhat example_env)
          (ProjectPaths ''/project'') (Artifacts 0)]"
  by (simp add: node_defs default_tasks_def get_provider_action_def nullish_def
        createProvider_def example_env_def example_world_def HARDHAT_NETWORK_NAME_def
        effects_def)

text \<open>
  C1, amended. In every launch that passes the network check, with a fork block number
  given, no fork URL given and no forking section in the configuration of the Hardhat
  network, and in which creating the Hardhat provider, where it is needed, succeeds, the
  task fails with \<open>NODE_FORK_BLOCK_NUMBER_WITHOUT_URL\<close>, unwrapped. No configuration
  call has reached a provider and no server has been created; no provider has been
  created when the network in use is the Hardhat network, and exactly the Hardhat
  provider has been created when it is not.
\<close>

theorem fork_block_number_without_url:
  assumes "network_name hre = HARDHAT_NETWORK_NAME \<or> hardhatArguments_network hre = None"
      and "forking (config_networks_hardhat hre) = None"
      and "network_name hre \<noteq> HARDHAT_NETWORK_NAME \<longrightarrow>
             createProvider_answer w HARDHAT_NETWORK_NAME (config_networks_hardhat hre)
               (config_paths hre) (env_artifacts hre) = Inr p"
  shows "node_action w hre (default_tasks w hre) (Some n) None hostnameParam port
           = (Inl (HardhatError NODE_FORK_BLOCK_NUMBER_WITHOUT_URL [] None),
              [Run TASK_NODE_GET_PROVIDER (GetProviderArgs (Some n) None)
                 (if network_name hre \<noteq> HARDHAT_NETWORK_NAME
                  then [DebugLog ''Creating hardhat provider for JSON-RPC server'' None,
                        CreateProvider HARDHAT_NETWORK_NAME (config_networks_hardhat hre)
                          (config_paths hre) (env_artifacts hre)]
                  else [])])
       \<and> filter is_request
            (effects (snd (node_action w hre (default_tasks w hre) (Some n) None
                             hostnameParam port))) = []
       \<and> filter is_creation
            (effects (snd (node_action w hre (default_tasks w hre) (Some n) None
                             hostnameParam port)))
           = (if network_name hre \<noteq> HARDHAT_NETWORK_NAME
              then [CreateProvider HARDHAT_NETWORK_NAME (config_networks_hardhat hre)
                      (config_paths hre) (env_artifacts hre)]
              else [])"
proof -
  have "task_get_provider (default_tasks w hre) (Some n) None
           = (Inl (HardhatError NODE_FORK_BLOCK_NUMBER_WITHOUT_URL [] None),
              if network_name hre \<noteq> HARDHAT_NETWORK_NAME
              then [DebugLog ''Creating hardhat provider for JSON-RPC server'' None,
                    CreateProvider HARDHAT_NETWORK_NAME (config_networks_hardhat hre)
                      (config_paths hre) (env_artifacts hre)]
              else [])"
    using get_provider_block_without_url [OF assms(2,3)] by (simp add: default_tasks_def)
  from fails_get_provider [OF assms(1) this, of w hostnameParam port]
  show ?thesis
    by (simp add: launch_failure_def effects_def)
qed

text \<open>On the Hardhat network, and on a network named \<open>localhost\<close>.\<close>

theorem fork_block_number_without_url_witness:
  "node_action example_world example_env (default_tasks example_world example_env)
     (Some 100) None None 8545
     = (Inl (HardhatError NODE_FORK_BLOCK_NUMBER_WITHOUT_URL [] None),
        [Run TASK_NODE_GET_PROVIDER (GetProviderArgs (Some 100) None) []])
   \<and> node_action example_world (example_env\<lparr>network_name := ''localhost''\<rparr>)
       (default_tasks example_world (example_env\<lparr>network_name := ''localhost''\<rparr>))
       (Some 100) None None 8545
     = (Inl (HardhatError NODE_FORK_BLOCK_NUMBER_WITHOUT_URL [] None),
        [Run TASK_NODE_GET_PROVIDER (GetProviderArgs (Some 100) None)
           [DebugLog ''Creating hardhat provider for JSON-RPC server'' None,
            CreateProvider ''hardhat'' (config_networks_hardhat example_env)
              (ProjectPaths ''/project'') (Artifacts 0)]])"
proof (intro conjI)
  show "node_action example_world example_env (default_tasks example_world example_env)
     (Some 100) None None 8545
     = (Inl (HardhatError NODE_FORK_BLOCK_NUMBER_WITHOUT_URL [] None),
        [Run TASK_NODE_GET_PROVIDER (GetProviderArgs (Some 100) None) []])"
    using fork_block_number_without_url
      [of example_env example_world "Provider 1" 100 None 8545]
    by (simp add: example_env_def HARDHAT_NETWORK_NAME_def)
next
  show "node_action example_world (example_env\<lparr>network_name := ''localhost''\<rparr>)
       (default_tasks example_world (example_env\<lparr>network_name := ''localhost''\<rparr>))
       (Some 100) None None 8545
     = (Inl (HardhatError NODE_FORK_BLOCK_NUMBER_WITHOUT_URL [] None),
        [Run TASK_NODE_GET_PROVIDER (GetProviderArgs (Some 100) None)
           [DebugLog ''Creating hardhat provider for JSON-RPC server'' None,
            CreateProvider ''hardhat'' (config_networks_hardhat example_env)
              (ProjectPaths ''/project'') (Artifacts 0)]])"
    using fork_block_number_without_url
      [of "example_env\<lparr>network_name := ''localhost''\<rparr>" example_world "Provider 1"
          100 None 8545]
    by (simp add: example_env_def example_world_def HARDHAT_NETWORK_NAME_def)
qed

subsection \<open>Provider resolution in closed form (lines 69 to 116)\<close>

lemma nullish_url:
  "nullish furlParam (map_option url (forking (config_networks_hardhat hre)))
     = effective_fork_url hre furlParam"
  by (simp add: nullish_def effective_fork_url_def split: option.splits)

lemma nullish_block:
  "nullish fbnParam (Option.bind (forking (config_networks_hardhat hre)) blockNumber)
     = effective_fork_block_number hre fbnParam"
  by (simp add: nullish_def effective_fork_block_number_def split: option.splits)

lemma get_provider_action_eq:
  "get_provider_action w hre fbnParam furlParam =
     (case chosen_provider w hre of
        Inl e \<Rightarrow> (Inl e, choice_effects hre)
      | Inr p \<Rightarrow>
          (case effective_fork_url hre furlParam of
             Some u \<Rightarrow>
               (case request_answer w p
                       (hardhat_reset u (effective_fork_block_number hre fbnParam)) of
                  Some e \<Rightarrow>
                    (Inl e, choice_effects hre @
                       [ProviderRequest p
                          (hardhat_reset u (effective_fork_block_number hre fbnParam))])
                | None \<Rightarrow>
                    (case request_answer w p hardhat_setLoggingEnabled of
                       Some e \<Rightarrow>
                         (Inl e, choice_effects hre @
                            [ProviderRequest p
                               (hardhat_reset u (effective_fork_block_number hre fbnParam)),
                             ProviderRequest p hardhat_setLoggingEnabled])
                     | None \<Rightarrow>
                         (Inr p, choice_effects hre @
                            [ProviderRequest p
                               (hardhat_reset u (effective_fork_block_number hre fbnParam)),
                             ProviderRequest p hardhat_setLoggingEnabled])))
           | None \<Rightarrow>
               (case effective_fork_block_number hre fbnParam of
                  Some n \<Rightarrow>
                    (Inl (HardhatError NODE_FORK_BLOCK_NUMBER_WITHOUT_URL [] None),
                     choice_effects hre)
                | None \<Rightarrow>
                    (case request_answer w p hardhat_setLoggingEnabled of
                       Some e \<Rightarrow>
                         (Inl e, choice_effects hre @
                            [ProviderRequest p hardhat_setLoggingEnabled])
                     | None \<Rightarrow>
                         (Inr p, choice_effects hre @
                            [ProviderRequest p hardhat_setLoggingEnabled])))))"
  unfolding get_provider_action_def nullish_url nullish_block Let_def
  by (simp add: chosen_provider_def choice_effects_def createProvider_def request_def prim_defs
        split: sum.splits option.splits)

text \<open>
  C4, as the claim has it, fails: with a fork block number and no fork URL anywhere, no
  configuration call at all reaches the provider, where the claim says one.
\<close>

theorem fork_requests_counterexample:
  "effective_fork_url example_env None = None
   \<and> filter is_request (snd (get_provider_action example_world example_env (Some 100) None))
     = []"
  by (simp add: get_provider_action_eq chosen_provider_def choice_effects_def
        effective_fork_url_def effective_fork_block_number_def example_defs)

text \<open>
  C4, amended. The effective fork URL is the override if there is one, else the URL of
  the forking section of the Hardhat network's configuration, and the effective fork
  block number likewise. Whenever provider resolution returns a provider, the
  configuration calls it has issued are, on that provider and in this order, a
  \<open>hardhat_reset\<close> with the effective URL and block number followed by
  \<open>hardhat_setLoggingEnabled\<close> when there is an effective URL, and
  \<open>hardhat_setLoggingEnabled\<close> alone when there is none. With an effective block
  number and no effective URL, provider resolution returns no provider and issues no
  call.
\<close>

theorem fork_requests:
  "(\<forall>p t. get_provider_action w hre fbnParam furlParam = (Inr p, t) \<longrightarrow>
      filter is_request t =
        (case effective_fork_url hre furlParam of
           Some u \<Rightarrow>
             [ProviderRequest p (hardhat_reset u (effective_fork_block_number hre fbnParam)),
              ProviderRequest p hardhat_setLoggingEnabled]
         | None \<Rightarrow> [ProviderRequest p hardhat_setLoggingEnabled]))
   \<and> (effective_fork_url hre furlParam = None
        \<and> effective_fork_block_number hre fbnParam \<noteq> None \<longrightarrow>
      filter is_request (snd (get_provider_action w hre fbnParam furlParam)) = []
      \<and> (\<forall>p. fst (get_provider_action w hre fbnParam furlParam) \<noteq> Inr p))"
  by (auto simp: get_provider_action_eq choice_effects_def split: sum.splits option.splits)

text \<open>
  A URL given on the command line with the block number of the configuration; no forking
  at all; a block number without a URL.
\<close>

theorem fork_requests_witness:
  "get_provider_action example_world forked_env None (Some ''https://override.example'')
     = (Inr (Provider 0),
        [ProviderRequest (Provider 0) (hardhat_reset ''https://override.example'' (Some 7)),
         ProviderRequest (Provider 0) hardhat_setLoggingEnabled])
   \<and> filter is_request
        (snd (get_provider_action example_world forked_env None
                (Some ''https://override.example'')))
     = [ProviderRequest (Provider 0) (hardhat_reset ''https://override.example'' (Some 7)),
        ProviderRequest (Provider 0) hardhat_setLoggingEnabled]
   \<and> filter is_request (snd (get_provider_action example_world example_env None None))
     = [ProviderRequest (Provider 0) hardhat_setLoggingEnabled]
   \<and> filter is_request (snd (get_provider_action example_world example_env (Some 100) None))
     = []"
proof -
  have forked: "get_provider_action example_world forked_env None
                  (Some ''https://override.example'')
     = (Inr (Provider 0),
        [ProviderRequest (Provider 0) (hardhat_reset ''https://override.example'' (Some 7)),
         ProviderRequest (Provider 0) hardhat_setLoggingEnabled])"
    by (simp add: get_provider_action_eq chosen_provider_def choice_effects_def
          effective_fork_url_def effective_fork_block_number_def forked_env_def example_defs)
  have plain: "get_provider_action example_world example_env None None
     = (Inr (Provider 0), [ProviderRequest (Provider 0) hardhat_setLoggingEnabled])"
    by (simp add: get_provider_action_eq chosen_provider_def choice_effects_def
          effective_fork_url_def effective_fork_block_number_def example_defs)
  have url: "effective_fork_url forked_env (Some ''https://override.example'')
               = Some ''https://override.example''"
            "effective_fork_block_number forked_env None = Some 7"
            "effective_fork_url example_env None = None"
            "effective_fork_block_number example_env (Some 100) = Some 100"
    by (simp_all add: effective_fork_url_def effective_fork_block_number_def forked_env_def
          example_defs)
  note a = fork_requests [of example_world forked_env None "Some ''https://override.example''",
      THEN conjunct1, rule_format, OF forked]
  note b = fork_requests [of example_world example_env None None,
      THEN conjunct1, rule_format, OF plain]
  note c = fork_requests [of example_world example_env "Some 100" None,
      THEN conjunct2, rule_format, THEN conjunct1]
  from a b c forked plain url show ?thesis
    by simp
qed

text \<open>
  C8. When the network in use is not the Hardhat network, provider resolution begins by
  creating one provider with \<open>createProvider\<close>, for the network name \<open>hardhat\<close>,
  from the configuration of the Hardhat network, the project paths and the artifacts; the
  provider it returns, and every provider it sends a configuration call to, is that new
  one. When the network in use is the Hardhat network, nothing is created, and the
  provider returned and configured is the provider of the network in use.
\<close>

theorem provider_selection:
  "(network_name hre \<noteq> HARDHAT_NETWORK_NAME \<longrightarrow>
      (\<exists>rest. snd (get_provider_action w hre fbnParam furlParam)
                = DebugLog ''Creating hardhat provider for JSON-RPC server'' None
                  # CreateProvider HARDHAT_NETWORK_NAME (config_networks_hardhat hre)
                      (config_paths hre) (env_artifacts hre)
                  # rest
              \<and> filter is_creation rest = [])
    \<and> (\<forall>p. fst (get_provider_action w hre fbnParam furlParam) = Inr p \<longrightarrow>
          createProvider_answer w HARDHAT_NETWORK_NAME (config_networks_hardhat hre)
            (config_paths hre) (env_artifacts hre) = Inr p)
    \<and> (\<forall>q args. ProviderRequest q args
                    \<in> set (snd (get_provider_action w hre fbnParam furlParam)) \<longrightarrow>
          createProvider_answer w HARDHAT_NETWORK_NAME (config_networks_hardhat hre)
            (config_paths hre) (env_artifacts hre) = Inr q))
   \<and> (network_name hre = HARDHAT_NETWORK_NAME \<longrightarrow>
      filter is_creation (snd (get_provider_action w hre fbnParam furlParam)) = []
    \<and> (\<forall>p. fst (get_provider_action w hre fbnParam furlParam) = Inr p \<longrightarrow>
          p = network_provider hre)
    \<and> (\<forall>q args. ProviderRequest q args
                    \<in> set (snd (get_provider_action w hre fbnParam furlParam)) \<longrightarrow>
          q = network_provider hre))"
  by (auto simp: get_provider_action_eq chosen_provider_def choice_effects_def
        split: sum.splits option.splits)

text \<open>On a network named \<open>localhost\<close>, and on the Hardhat network.\<close>

theorem provider_selection_witness:
  "get_provider_action example_world (example_env\<lparr>network_name := ''localhost''\<rparr>) None None
     = (Inr (Provider 1),
        [DebugLog ''Creating hardhat provider for JSON-RPC server'' None,
         CreateProvider ''hardhat'' (config_networks_hardhat example_env)
           (ProjectPaths ''/project'') (Artifacts 0),
         ProviderRequest (Provider 1) hardhat_setLoggingEnabled])
   \<and> createProvider_answer example_world HARDHAT_NETWORK_NAME
         (config_networks_hardhat (example_env\<lparr>network_name := ''localhost''\<rparr>))
         (config_paths (example_env\<lparr>network_name := ''localhost''\<rparr>))
         (env_artifacts (example_env\<lparr>network_name := ''localhost''\<rparr>))
       = Inr (Provider 1)
   \<and> get_provider_action example_world example_env None None
     = (Inr (Provider 0), [ProviderRequest (Provider 0) hardhat_setLoggingEnabled])
   \<and> Provider 0 = network_provider example_env"
proof -
  let ?other = "example_env\<lparr>network_name := ''localhost''\<rparr>"
  have other: "get_provider_action example_world ?other None None
     = (Inr (Provider 1),
        [DebugLog ''Creating hardhat provider for JSON-RPC server'' None,
         CreateProvider ''hardhat'' (config_networks_hardhat example_env)
           (ProjectPaths ''/project'') (Artifacts 0),
         ProviderRequest (Provider 1) hardhat_setLoggingEnabled])"
    by (simp add: get_provider_action_eq chosen_provider_def choice_effects_def
          effective_fork_url_def effective_fork_block_number_def example_defs)
  have local: "get_provider_action example_world example_env None None
     = (Inr (Provider 0), [ProviderRequest (Provider 0) hardhat_setLoggingEnabled])"
    by (simp add: get_provider_action_eq chosen_provider_def choice_effects_def
          effective_fork_url_def effective_fork_block_number_def example_defs)
  have ne: "network_name ?other \<noteq> HARDHAT_NETWORK_NAME"
    by (simp add: example_defs)
  have eq: "network_name example_env = HARDHAT_NETWORK_NAME"
    by (simp add: example_defs)
  from provider_selection [of ?other example_world None None,
      THEN conjunct1, rule_format, OF ne, THEN conjunct2, THEN conjunct1, rule_format,
      of "Provider 1"] other
  have created: "createProvider_answer example_world HARDHAT_NETWORK_NAME
         (config_networks_hardhat ?other) (config_paths ?other) (env_artifacts ?other)
       = Inr (Provider 1)"
    by simp
  from provider_selection [of example_env example_world None None,
      THEN conjunct2, rule_format, OF eq, THEN conjunct2, THEN conjunct1, rule_format,
      of "Provider 0"] local
  have "Provider 0 = network_provider example_env"
    by simp
  with other local created show ?thesis
    by simp
qed

subsection \<open>The server-ready hook (lines 34 to 53 and 169 to 198)\<close>

text \<open>
  C9, as the claim has it, fails: the account list is configured and has an account, but
  the private key of that account is one byte long, \<open>privateToAddress\<close> throws at
  line 43, and the hook fails after the two heading lines without a block for the
  account.
\<close>

theorem server_ready_prints_counterexample:
  "accounts (config_networks_hardhat short_key_env)
     = Some [\<lparr>privateKey = ''0xab'', balance = 10000 * 10 ^ 18\<rparr>]
   \<and> server_ready_action example_world short_key_env ''127.0.0.1'' 8545
         (Provider 0) (Server 0)
     = (Inl (Error ''Expected private key of length 32''),
        [ConsoleLog ''Started HTTP and WebSocket JSON-RPC server at http://127.0.0.1:8545/'',
         ConsoleLog [],
         ConsoleLog ''Accounts'',
         ConsoleLog ''========''])"
proof -
  let ?a = "\<lparr>privateKey = ''0xab'', balance = 10000 * 10 ^ 18\<rparr>"
  have accs: "accounts (config_networks_hardhat short_key_env) = Some [?a]"
    by (simp add: short_key_env_def)
  have refused: "key_error example_world ([?a] ! 0)
                   = Some (Error ''Expected private key of length 32'')"
    by (simp add: key_error_def example_world_def key_defs)
  have banner: "chalk_green example_world
                  (''Started HTTP and WebSocket JSON-RPC server at http://'' @ ''127.0.0.1''
                     @ '':'' @ numberToString example_world 8545 @ ''/'')
                = ''Started HTTP and WebSocket JSON-RPC server at http://127.0.0.1:8545/''"
    by (simp add: example_world_def numberToString_def toString10_8545)
  from server_ready_action_refused [OF accs _ _ refused,
      of "''127.0.0.1''" 8545 "Provider 0" "Server 0"] accs banner
  show ?thesis
    by simp
qed

text \<open>
  C9, amended. The registered server-ready hook prints the line that says where the
  server was started, then an empty line, and returns when the Hardhat network has no
  account list. When it has one, the hook goes on with the two heading lines and then
  one block for each account, in the order of the list, as long as the library accepts
  the private keys: the block of the account at position \<open>i\<close> gives \<open>i\<close>, the
  address computed from the private key, the balance divided by \<open>10 ^ 18\<close>, and the
  private key. When every key is accepted, there is a block for every account and the
  hook returns. At the first account whose key is refused the hook fails with the error
  of the library, having printed the blocks of the accounts before it and no other.
\<close>

theorem server_ready_prints:
  "take 2 (snd (server_ready_action w hre address port p s))
     = [ConsoleLog (chalk_green w
          (''Started HTTP and WebSocket JSON-RPC server at http://'' @ address @ '':''
             @ numberToString w port @ ''/'')),
        ConsoleLog []]
   \<and> (accounts (config_networks_hardhat hre) = None \<longrightarrow>
        fst (server_ready_action w hre address port p s) = Inr ()
      \<and> length (snd (server_ready_action w hre address port p s)) = 2)
   \<and> (\<forall>accs. accounts (config_networks_hardhat hre) = Some accs \<longrightarrow>
        snd (server_ready_action w hre address port p s) ! 2 = ConsoleLog ''Accounts''
      \<and> snd (server_ready_action w hre address port p s) ! 3 = ConsoleLog ''========''
      \<and> ((\<forall>a \<in> set accs. key_error w a = None) \<longrightarrow>
            fst (server_ready_action w hre address port p s) = Inr ()
          \<and> length (snd (server_ready_action w hre address port p s)) = 4 + length accs)
      \<and> (\<forall>k e. k < length accs \<and> (\<forall>j < k. key_error w (accs ! j) = None)
                \<and> key_error w (accs ! k) = Some e \<longrightarrow>
            fst (server_ready_action w hre address port p s) = Inl e
          \<and> length (snd (server_ready_action w hre address port p s)) = 4 + k)
      \<and> (\<forall>i. 4 + i < length (snd (server_ready_action w hre address port p s)) \<longrightarrow>
            i < length accs
          \<and> (\<exists>keyBuffer addressBuffer.
                toBuffer w (privateKey (accs ! i)) = Inr keyBuffer
              \<and> privateToAddress w keyBuffer = Inr addressBuffer
              \<and> snd (server_ready_action w hre address port p s) ! (4 + i)
                  = ConsoleLog
                      (''Account #'' @ toString10 i @ '': '' @ bufferToHex w addressBuffer
                       @ '' ('' @ toString10 (balance (accs ! i) div 10 ^ 18) @ '' ETH)''
                       @ [CHR 0x0A]
                       @ ''Private Key: '' @ bufferToHex w keyBuffer @ [CHR 0x0A]))))"
proof (intro conjI allI impI)
  show "take 2 (snd (server_ready_action w hre address port p s))
     = [ConsoleLog (chalk_green w
          (''Started HTTP and WebSocket JSON-RPC server at http://'' @ address @ '':''
             @ numberToString w port @ ''/'')),
        ConsoleLog []]"
    using snd_andThen
      [of "emit (ConsoleLog [])"
          "\<lambda>_. logHardhatNetworkAccounts w (config_networks_hardhat hre)"]
    by (auto simp: server_ready_action_def emit_def Let_def numeral_2_eq_2)
next
  assume "accounts (config_networks_hardhat hre) = None"
  from server_ready_action_none [OF this, of w address port p s]
  show "fst (server_ready_action w hre address port p s) = Inr ()"
   and "length (snd (server_ready_action w hre address port p s)) = 2"
    by simp_all
next
  fix accs
  assume accs: "accounts (config_networks_hardhat hre) = Some accs"
  let ?out = "server_ready_action w hre address port p s"
  let ?banner = "ConsoleLog (chalk_green w
        (''Started HTTP and WebSocket JSON-RPC server at http://'' @ address @ '':''
           @ numberToString w port @ ''/''))"
  let ?block = "\<lambda>(index, account). ConsoleLog (projr (account_block w index account))"
  have shape: "\<exists>n r. n \<le> length accs
      \<and> (\<forall>j < n. key_error w (accs ! j) = None)
      \<and> ?out = (r, ?banner # ConsoleLog [] # ConsoleLog ''Accounts''
                    # ConsoleLog ''========'' # map ?block (take n (enumerate 0 accs)))"
  proof (cases "\<forall>a \<in> set accs. key_error w a = None")
    case True
    from server_ready_action_accepted [OF accs True, of address port p s] True
    show ?thesis
      by (intro exI [of _ "length accs"]) auto
  next
    case False
    then obtain i where i: "i < length accs" "key_error w (accs ! i) \<noteq> None"
      by (auto simp: in_set_conv_nth)
    define k where "k = (LEAST i. i < length accs \<and> key_error w (accs ! i) \<noteq> None)"
    have k: "k < length accs \<and> key_error w (accs ! k) \<noteq> None"
      unfolding k_def using i by (rule_tac LeastI [of _ i]) simp
    have before: "\<forall>j < k. key_error w (accs ! j) = None"
    proof (intro allI impI)
      fix j assume "j < k"
      then have "\<not> (j < length accs \<and> key_error w (accs ! j) \<noteq> None)"
        unfolding k_def by (rule not_less_Least)
      with \<open>j < k\<close> k show "key_error w (accs ! j) = None" by auto
    qed
    from k obtain e where "key_error w (accs ! k) = Some e" by auto
    from server_ready_action_refused [OF accs _ before this, of address port p s] k before
    show ?thesis
      by (intro exI [of _ k]) auto
  qed
  then obtain n r where n: "n \<le> length accs"
    and ok: "\<forall>j < n. key_error w (accs ! j) = None"
    and out: "?out = (r, ?banner # ConsoleLog [] # ConsoleLog ''Accounts''
                    # ConsoleLog ''========'' # map ?block (take n (enumerate 0 accs)))"
    by blast
  show "snd ?out ! 2 = ConsoleLog ''Accounts''"
    by (simp add: out numeral_2_eq_2)
  show "snd ?out ! 3 = ConsoleLog ''========''"
    by (simp add: out numeral_3_eq_3)
  {
    assume all: "\<forall>a \<in> set accs. key_error w a = None"
    from server_ready_action_accepted [OF accs all, of address port p s]
    show "fst ?out = Inr ()" and "length (snd ?out) = 4 + length accs"
      by simp_all
  }
  {
    fix k e
    assume "k < length accs \<and> (\<forall>j < k. key_error w (accs ! j) = None)
              \<and> key_error w (accs ! k) = Some e"
    then have k: "k < length accs" and before: "\<forall>j < k. key_error w (accs ! j) = None"
      and at: "key_error w (accs ! k) = Some e"
      by simp_all
    from server_ready_action_refused [OF accs k before at, of address port p s] k
    show "fst ?out = Inl e" and "length (snd ?out) = 4 + k"
      by simp_all
  }
  {
    fix i
    assume "4 + i < length (snd ?out)"
    then have i: "i < n" using out n by simp
    with n show "i < length accs" by simp
    from ok i have "key_error w (accs ! i) = None" by simp
    then obtain keyBuffer addressBuffer where
      kb: "toBuffer w (privateKey (accs ! i)) = Inr keyBuffer" and
      ab: "privateToAddress w keyBuffer = Inr addressBuffer"
      by (auto simp: key_error_None)
    have "4 + i = Suc (Suc (Suc (Suc i)))" by simp
    then have "snd ?out ! (4 + i) = ?block (enumerate 0 accs ! i)"
      using i n by (simp add: out)
    also have "\<dots> = ConsoleLog (projr (account_block w i (accs ! i)))"
      using i n by (simp add: nth_enumerate_eq)
    finally have "snd ?out ! (4 + i)
        = ConsoleLog
            (''Account #'' @ toString10 i @ '': '' @ bufferToHex w addressBuffer
             @ '' ('' @ toString10 (balance (accs ! i) div 10 ^ 18) @ '' ETH)''
             @ [CHR 0x0A]
             @ ''Private Key: '' @ bufferToHex w keyBuffer @ [CHR 0x0A])"
      by (simp add: account_block_accepted [OF kb ab] displayed_balance_def)
    with kb ab
    show "\<exists>keyBuffer addressBuffer.
                toBuffer w (privateKey (accs ! i)) = Inr keyBuffer
              \<and> privateToAddress w keyBuffer = Inr addressBuffer
              \<and> snd ?out ! (4 + i)
                  = ConsoleLog
                      (''Account #'' @ toString10 i @ '': '' @ bufferToHex w addressBuffer
                       @ '' ('' @ toString10 (balance (accs ! i) div 10 ^ 18) @ '' ETH)''
                       @ [CHR 0x0A]
                       @ ''Private Key: '' @ bufferToHex w keyBuffer @ [CHR 0x0A])"
      by blast
  }
qed

text \<open>
  The two accounts of the example, whose keys are accepted; no account list; an account
  with a key of one byte.
\<close>

theorem server_ready_prints_witness:
  "server_ready_action example_world example_env ''127.0.0.1'' 8545 (Provider 0) (Server 0)
     = (Inr (),
        [ConsoleLog ''Started HTTP and WebSocket JSON-RPC server at http://127.0.0.1:8545/'',
         ConsoleLog [],
         ConsoleLog ''Accounts'',
         ConsoleLog ''========'',
         ConsoleLog (''Account #0: 0xf39fd6e51aad88f6f4ce6ab8827279cfffb92266 (10000 ETH)''
                     @ [CHR 0x0A]
                     @ ''Private Key: 0xac0974bec39a17e36ba4a6b4d238ff944bacb478cbed5efcae784d7bf4f2ff80''
                     @ [CHR 0x0A]),
         ConsoleLog (''Account #1: 0x70997970c51812dc3a010c7d01b50e0d17dc79c8 (0 ETH)''
                     @ [CHR 0x0A]
                     @ ''Private Key: 0x59c6995e998f97a5a0044966f0945389dc9e86dae88c7a8412f4603b6b78690d''
                     @ [CHR 0x0A])])
   \<and> server_ready_action example_world forked_env ''127.0.0.1'' 8545 (Provider 0) (Server 0)
     = (Inr (),
        [ConsoleLog ''Started HTTP and WebSocket JSON-RPC server at http://127.0.0.1:8545/'',
         ConsoleLog []])
   \<and> fst (server_ready_action example_world short_key_env ''127.0.0.1'' 8545
            (Provider 0) (Server 0))
     = Inl (Error ''Expected private key of length 32'')
   \<and> length (snd (server_ready_action example_world short_key_env ''127.0.0.1'' 8545
                    (Provider 0) (Server 0))) = 4"
proof (intro conjI)
  let ?a0 = "\<lparr>privateKey = account0_key, balance = 10000 * 10 ^ 18\<rparr>"
  let ?a1 = "\<lparr>privateKey = account1_key, balance = 5 * 10 ^ 17\<rparr>"
  let ?out = "server_ready_action example_world example_env ''127.0.0.1'' 8545
                (Provider 0) (Server 0)"
  have accs: "accounts (config_networks_hardhat example_env) = Some [?a0, ?a1]"
    by (simp add: example_env_def)
  have ok: "key_error example_world a = None" if "a \<in> set [?a0, ?a1]" for a
    using that by (auto simp: example_key_error)
  note facts = server_ready_prints
    [of example_world example_env "''127.0.0.1''" 8545 "Provider 0" "Server 0"]
  note with_accounts = facts [THEN conjunct2, THEN conjunct2, rule_format, OF accs]
  from facts have banner: "take 2 (snd ?out)
     = [ConsoleLog ''Started HTTP and WebSocket JSON-RPC server at http://127.0.0.1:8545/'',
        ConsoleLog []]"
    by (simp add: example_world_def numberToString_def toString10_8545)
  from with_accounts have heads:
    "snd ?out ! 2 = ConsoleLog ''Accounts''" "snd ?out ! 3 = ConsoleLog ''========''"
    by simp_all
  from with_accounts [THEN conjunct2, THEN conjunct2, THEN conjunct1, rule_format, OF ok]
  have ret: "fst ?out = Inr ()" and len: "length (snd ?out) = 6"
    by simp_all
  note block = with_accounts [THEN conjunct2, THEN conjunct2, THEN conjunct2, THEN conjunct2,
      rule_format, THEN conjunct2]
  from block [of 0] len obtain kb0 ab0 where
    "toBuffer example_world (privateKey ([?a0, ?a1] ! 0)) = Inr kb0"
    "privateToAddress example_world kb0 = Inr ab0"
    "snd ?out ! (4 + 0)
       = ConsoleLog
           (''Account #'' @ toString10 0 @ '': '' @ bufferToHex example_world ab0
            @ '' ('' @ toString10 (balance ([?a0, ?a1] ! 0) div 10 ^ 18) @ '' ETH)''
            @ [CHR 0x0A]
            @ ''Private Key: '' @ bufferToHex example_world kb0 @ [CHR 0x0A])"
    by auto
  with example_toBuffer_account0(1) example_address_account0 [of kb0]
  have b0: "snd ?out ! 4
     = ConsoleLog (''Account #0: 0xf39fd6e51aad88f6f4ce6ab8827279cfffb92266 (10000 ETH)''
                     @ [CHR 0x0A]
                     @ ''Private Key: 0xac0974bec39a17e36ba4a6b4d238ff944bacb478cbed5efcae784d7bf4f2ff80''
                     @ [CHR 0x0A])"
    by (auto simp: toString10_zero toString10_10000 account0_key_def account0_address_def)
  from block [of 1] len obtain kb1 ab1 where
    "toBuffer example_world (privateKey ([?a0, ?a1] ! 1)) = Inr kb1"
    "privateToAddress example_world kb1 = Inr ab1"
    "snd ?out ! (4 + 1)
       = ConsoleLog
           (''Account #'' @ toString10 1 @ '': '' @ bufferToHex example_world ab1
            @ '' ('' @ toString10 (balance ([?a0, ?a1] ! 1) div 10 ^ 18) @ '' ETH)''
            @ [CHR 0x0A]
            @ ''Private Key: '' @ bufferToHex example_world kb1 @ [CHR 0x0A])"
    by auto
  with example_toBuffer_account1(1) example_address_account1 [of kb1]
  have b1: "snd ?out ! 5
     = ConsoleLog (''Account #1: 0x70997970c51812dc3a010c7d01b50e0d17dc79c8 (0 ETH)''
                     @ [CHR 0x0A]
                     @ ''Private Key: 0x59c6995e998f97a5a0044966f0945389dc9e86dae88c7a8412f4603b6b78690d''
                     @ [CHR 0x0A])"
    by (auto simp: toString10_zero toString10_one account1_key_def account1_address_def)
  have "snd ?out = [snd ?out ! 0, snd ?out ! 1, snd ?out ! 2, snd ?out ! 3,
                    snd ?out ! 4, snd ?out ! 5]"
    using len by (intro nth_equalityI) (auto simp: nth_Cons' less_Suc_eq numeral_eq_Suc)
  moreover from banner len have "snd ?out ! 0
      = ConsoleLog ''Started HTTP and WebSocket JSON-RPC server at http://127.0.0.1:8545/''"
    and "snd ?out ! 1 = ConsoleLog []"
    by (auto simp: take_Suc_conv_app_nth numeral_2_eq_2)
  ultimately show "?out
     = (Inr (),
        [ConsoleLog ''Started HTTP and WebSocket JSON-RPC server at http://127.0.0.1:8545/'',
         ConsoleLog [],
         ConsoleLog ''Accounts'',
         ConsoleLog ''========'',
         ConsoleLog (''Account #0: 0xf39fd6e51aad88f6f4ce6ab8827279cfffb92266 (10000 ETH)''
                     @ [CHR 0x0A]
                     @ ''Private Key: 0xac0974bec39a17e36ba4a6b4d238ff944bacb478cbed5efcae784d7bf4f2ff80''
                     @ [CHR 0x0A]),
         ConsoleLog (''Account #1: 0x70997970c51812dc3a010c7d01b50e0d17dc79c8 (0 ETH)''
                     @ [CHR 0x0A]
                     @ ''Private Key: 0x59c6995e998f97a5a0044966f0945389dc9e86dae88c7a8412f4603b6b78690d''
                     @ [CHR 0x0A])])"
    using ret heads b0 b1 by (simp add: prod_eq_iff)
next
  let ?out = "server_ready_action example_world forked_env ''127.0.0.1'' 8545
                (Provider 0) (Server 0)"
  have none: "accounts (config_networks_hardhat forked_env) = None"
    by (simp add: forked_env_def)
  note facts = server_ready_prints
    [of example_world forked_env "''127.0.0.1''" 8545 "Provider 0" "Server 0"]
  from facts have banner: "take 2 (snd ?out)
     = [ConsoleLog ''Started HTTP and WebSocket JSON-RPC server at http://127.0.0.1:8545/'',
        ConsoleLog []]"
    by (simp add: example_world_def numberToString_def toString10_8545)
  from facts [THEN conjunct2, THEN conjunct1, rule_format, OF none]
  have "fst ?out = Inr ()" and "length (snd ?out) = 2"
    by simp_all
  with banner show "?out
     = (Inr (),
        [ConsoleLog ''Started HTTP and WebSocket JSON-RPC server at http://127.0.0.1:8545/'',
         ConsoleLog []])"
    by (simp add: prod_eq_iff)
next
  let ?a = "\<lparr>privateKey = ''0xab'', balance = 10000 * 10 ^ 18\<rparr>"
  have accs: "accounts (config_networks_hardhat short_key_env) = Some [?a]"
    by (simp add: short_key_env_def)
  have refused: "key_error example_world ([?a] ! 0)
                   = Some (Error ''Expected private key of length 32'')"
    by (simp add: key_error_def example_world_def key_defs)
  note facts = server_ready_prints
    [of example_world short_key_env "''127.0.0.1''" 8545 "Provider 0" "Server 0",
     THEN conjunct2, THEN conjunct2, rule_format, OF accs,
     THEN conjunct2, THEN conjunct2, THEN conjunct2, THEN conjunct1, rule_format,
     of 0 "Error ''Expected private key of length 32''"]
  from facts refused
  show "fst (server_ready_action example_world short_key_env ''127.0.0.1'' 8545
            (Provider 0) (Server 0))
     = Inl (Error ''Expected private key of length 32'')"
   and "length (snd (server_ready_action example_world short_key_env ''127.0.0.1'' 8545
                    (Provider 0) (Server 0))) = 4"
    by simp_all
qed

subsection \<open>The balance that is shown (lines 45 to 47)\<close>

lemma digit_value_digit10: "d < 10 \<Longrightarrow> digit_value (digit10 d) = d"
proof -
  assume "d < 10"
  then have "d \<in> {0, 1, 2, 3, 4, 5, 6, 7, 8, 9}" by auto
  then show ?thesis
    by (auto simp: digit_value_def digit10_def)
qed

lemma decimal_value_snoc: "decimal_value (s @ [c]) = 10 * decimal_value s + digit_value c"
  by (simp add: decimal_value_def)

lemma decimal_value_toString10: "decimal_value (toString10 n) = n"
proof (induction n rule: toString10.induct)
  case (1 n)
  show ?case
  proof (cases "n < 10")
    case True
    then have "toString10 n = [digit10 n]"
      by (subst toString10.simps) simp
    with True show ?thesis
      by (simp add: decimal_value_def digit_value_digit10)
  next
    case False
    then have "toString10 n = toString10 (n div 10) @ [digit10 (n mod 10)]"
      by (subst toString10.simps) simp
    then have "decimal_value (toString10 n) = 10 * (n div 10) + n mod 10"
      using 1 False by (simp only: decimal_value_snoc) (simp add: digit_value_digit10)
    then show ?thesis by simp
  qed
qed



text \<open>
  C10. For every account, the balance that is printed is the decimal numeral of the
  floor of the balance divided by \<open>10 ^ 18\<close>: read back as a number it is the
  quotient of the integer division, the remainder below \<open>10 ^ 18\<close> is dropped, and
  a balance below \<open>10 ^ 18\<close> is printed as \<open>0\<close>.
\<close>

theorem displayed_balance_floor:
  "displayed_balance account = toString10 (nat \<lfloor>real (balance account) / 10 ^ 18\<rfloor>)
   \<and> decimal_value (displayed_balance account) = balance account div 10 ^ 18
   \<and> (balance account < 10 ^ 18 \<longrightarrow> displayed_balance account = ''0'')
   \<and> (\<forall>q r. balance account = q * 10 ^ 18 + r \<and> r < 10 ^ 18 \<longrightarrow>
          displayed_balance account = toString10 q)
   \<and> (\<forall>keyBuffer addressBuffer.
          toBuffer w (privateKey account) = Inr keyBuffer
        \<and> privateToAddress w keyBuffer = Inr addressBuffer \<longrightarrow>
          account_block w index account =
            Inr (''Account #'' @ toString10 index @ '': '' @ bufferToHex w addressBuffer
                 @ '' ('' @ displayed_balance account @ '' ETH)'' @ [CHR 0x0A]
                 @ ''Private Key: '' @ bufferToHex w keyBuffer @ [CHR 0x0A]))"
proof (intro conjI allI impI)
  have "\<lfloor>real (balance account) / 10 ^ 18\<rfloor> = int (balance account div 10 ^ 18)"
    using floor_divide_of_nat_eq [of "balance account" "10 ^ 18", where ?'a = real]
    by simp
  then show "displayed_balance account = toString10 (nat \<lfloor>real (balance account) / 10 ^ 18\<rfloor>)"
    by (simp add: displayed_balance_def)
next
  show "decimal_value (displayed_balance account) = balance account div 10 ^ 18"
    by (simp add: displayed_balance_def decimal_value_toString10)
next
  assume "balance account < 10 ^ 18"
  then show "displayed_balance account = ''0''"
    by (simp add: displayed_balance_def toString10_zero)
next
  fix q r
  assume "balance account = q * 10 ^ 18 + r \<and> r < 10 ^ 18"
  then have "balance account div 10 ^ 18 = q"
    by simp
  then show "displayed_balance account = toString10 q"
    by (simp add: displayed_balance_def)
next
  fix keyBuffer addressBuffer
  assume "toBuffer w (privateKey account) = Inr keyBuffer
        \<and> privateToAddress w keyBuffer = Inr addressBuffer"
  then show "account_block w index account =
            Inr (''Account #'' @ toString10 index @ '': '' @ bufferToHex w addressBuffer
                 @ '' ('' @ displayed_balance account @ '' ETH)'' @ [CHR 0x0A]
                 @ ''Private Key: '' @ bufferToHex w keyBuffer @ [CHR 0x0A])"
    by (simp add: account_block_accepted)
qed

text \<open>Half a unit is shown as 0; ten thousand units and 7 base units as 10000.\<close>

theorem displayed_balance_floor_witness:
  "displayed_balance \<lparr>privateKey = ''0xcdef'', balance = 5 * 10 ^ 17\<rparr> = ''0''
   \<and> displayed_balance \<lparr>privateKey = ''0xab'', balance = 10000 * 10 ^ 18 + 7\<rparr> = ''10000''"
proof (intro conjI)
  show "displayed_balance \<lparr>privateKey = ''0xcdef'', balance = 5 * 10 ^ 17\<rparr> = ''0''"
    using displayed_balance_floor
      [of "\<lparr>privateKey = ''0xcdef'', balance = 5 * 10 ^ 17\<rparr>" example_world 1,
       THEN conjunct2, THEN conjunct2, THEN conjunct1]
    by simp
next
  from displayed_balance_floor
    [of "\<lparr>privateKey = ''0xab'', balance = 10000 * 10 ^ 18 + 7\<rparr>" example_world 0,
     THEN conjunct2, THEN conjunct2, THEN conjunct2, THEN conjunct1]
  have "\<forall>q r. balance \<lparr>privateKey = ''0xab'', balance = 10000 * 10 ^ 18 + 7\<rparr>
                 = q * 10 ^ 18 + r \<and> r < 10 ^ 18 \<longrightarrow>
          displayed_balance \<lparr>privateKey = ''0xab'', balance = 10000 * 10 ^ 18 + 7\<rparr>
            = toString10 q"
    by blast
  from this [rule_format, of 10000 7]
  show "displayed_balance \<lparr>privateKey = ''0xab'', balance = 10000 * 10 ^ 18 + 7\<rparr> = ''10000''"
    by (simp add: toString10_10000)
qed

end
